theory Spec2Isabelle
  imports Main "HOL-Library.Sublist"
begin

section \<open>Errors and formatting\<close>

text \<open>
  A Go \<^verbatim>\<open>error\<close> is modelled by its construction: \<open>Err m\<close> is an error with the
  message \<open>m\<close> (\<^verbatim>\<open>fmt.Errorf("m")\<close>, or an error of a library), and \<open>Wrap m e\<close> is
  \<^verbatim>\<open>fmt.Errorf("m: %w", e)\<close>, which keeps the wrapped error \<open>e\<close>.
\<close>

datatype error = Err string | Wrap string error

fun Error :: "error \<Rightarrow> string" where
  "Error (Err m) = m"
| "Error (Wrap m e) = m @ '': '' @ Error e"

fun Unwrap :: "error \<Rightarrow> error option" where
  "Unwrap (Err m) = None"
| "Unwrap (Wrap m e) = Some e"

text \<open>The verb \<^verbatim>\<open>%d\<close> of \<^verbatim>\<open>fmt.Sprintf\<close> on an \<^verbatim>\<open>int\<close>: decimal digits, with a sign
  for a negative number.\<close>

fun utoa :: "nat \<Rightarrow> string" where
  "utoa n = (if n < 10 then [''0123456789'' ! n]
             else utoa (n div 10) @ [''0123456789'' ! (n mod 10)])"

declare utoa.simps [simp del]

definition itoa :: "int \<Rightarrow> string" where
  "itoa i = (if i < 0 then CHR ''-'' # utoa (nat (- i)) else utoa (nat i))"

text \<open>Durations are \<^verbatim>\<open>time.Duration\<close> values, a number of nanoseconds.\<close>

definition Second :: int where
  "Second = 1000000000"

definition Minute :: int where
  "Minute = 60 * Second"

definition Hour :: int where
  "Hour = 60 * Minute"

section \<open>The configuration (package configs)\<close>

record ShutdownConfig =
  Timeout :: int

record AppConfig =
  Name :: string
  Version :: string
  Environment :: string
  Debug :: bool
  Shutdown :: ShutdownConfig

record TLSConfig =
  Enabled :: bool
  CertFile :: string
  KeyFile :: string

record CORSConfig =
  AllowedOrigins :: "string list"
  AllowedMethods :: "string list"
  AllowedHeaders :: "string list"

text \<open>The field \<^verbatim>\<open>Rate float64\<close> of \<^verbatim>\<open>RateLimitConfig\<close> is read by no function and is
  left out.\<close>

record RateLimitConfig =
  Enabled :: bool
  Burst :: int

record HTTPConfig =
  Port :: int
  Host :: string
  ReadTimeout :: int
  WriteTimeout :: int
  IdleTimeout :: int
  MaxHeaderBytes :: int
  TLS :: TLSConfig
  CORS :: CORSConfig
  RateLimit :: RateLimitConfig

record DatabaseConfig =
  Driver :: string
  Host :: string
  Port :: int
  Database :: string
  Username :: string
  Password :: string
  SSLMode :: string
  MaxOpenConns :: int
  MaxIdleConns :: int
  ConnMaxLifetime :: int
  MigrationsPath :: string

record RedisConfig =
  Host :: string
  Port :: int
  Password :: string
  Database :: int
  PoolSize :: int
  DialTimeout :: int
  ReadTimeout :: int
  WriteTimeout :: int

record AuthConfig =
  JWTSecret :: string
  JWTExpiration :: int
  BCryptCost :: int

record LoggingConfig =
  Level :: string
  Format :: string
  Output :: string
  MaxSize :: int
  MaxBackups :: int
  MaxAge :: int
  Compress :: bool

record HealthConfig =
  Enabled :: bool
  CheckInterval :: int
  Timeout :: int
  DatabaseCheck :: bool
  RedisCheck :: bool
  ExternalChecks :: "string list"

record Config =
  App :: AppConfig
  HTTP :: HTTPConfig
  Database :: DatabaseConfig
  Redis :: RedisConfig
  Auth :: AuthConfig
  Logging :: LoggingConfig
  Health :: HealthConfig

text \<open>The defaults that \<^verbatim>\<open>loadDefaults\<close> hands to the configuration library.\<close>

definition defaults :: Config where
  "defaults = \<lparr>
     App = \<lparr> Name = ''medical-rep-api'', Version = ''1.0.0'', Environment = ''development'',
             Debug = True, Shutdown = \<lparr> ShutdownConfig.Timeout = 30 * Second \<rparr> \<rparr>,
     HTTP = \<lparr> HTTPConfig.Port = 8080, HTTPConfig.Host = ''0.0.0.0'',
              HTTPConfig.ReadTimeout = 15 * Second, HTTPConfig.WriteTimeout = 15 * Second,
              IdleTimeout = 60 * Second, MaxHeaderBytes = 1048576,
              TLS = \<lparr> TLSConfig.Enabled = False, CertFile = [], KeyFile = [] \<rparr>,
              CORS = \<lparr> AllowedOrigins = [''*''],
                       AllowedMethods = [''GET'', ''POST'', ''PUT'', ''DELETE'', ''OPTIONS''],
                       AllowedHeaders = [''*''] \<rparr>,
              RateLimit = \<lparr> RateLimitConfig.Enabled = False, Burst = 200 \<rparr> \<rparr>,
     Database = \<lparr> Driver = ''postgres'', DatabaseConfig.Host = ''localhost'',
                  DatabaseConfig.Port = 5432, DatabaseConfig.Database = ''medical_rep'',
                  Username = ''postgres'', DatabaseConfig.Password = ''password'',
                  SSLMode = ''disable'', MaxOpenConns = 25, MaxIdleConns = 5,
                  ConnMaxLifetime = 5 * Minute, MigrationsPath = ''migrations'' \<rparr>,
     Redis = \<lparr> RedisConfig.Host = ''localhost'', RedisConfig.Port = 6379,
               RedisConfig.Password = [], RedisConfig.Database = 0, PoolSize = 10,
               DialTimeout = 5 * Second, RedisConfig.ReadTimeout = 3 * Second,
               RedisConfig.WriteTimeout = 3 * Second \<rparr>,
     Auth = \<lparr> JWTSecret = [], JWTExpiration = 24 * Hour, BCryptCost = 12 \<rparr>,
     Logging = \<lparr> Level = ''info'', Format = ''json'', Output = ''stdout'', MaxSize = 100,
                 MaxBackups = 3, MaxAge = 28, Compress = True \<rparr>,
     Health = \<lparr> HealthConfig.Enabled = True, CheckInterval = 30 * Second,
                HealthConfig.Timeout = 5 * Second, DatabaseCheck = True, RedisCheck = True,
                ExternalChecks = [] \<rparr> \<rparr>"

text \<open>\<^verbatim>\<open>validate\<close> reads the package variable \<^verbatim>\<open>C\<close>; here it takes the configuration
  that \<^verbatim>\<open>C\<close> points to.\<close>

definition validate :: "Config \<Rightarrow> error option" where
  "validate c =
     (if Name (App c) = [] then Some (Err ''app.name is required'')
      else if HTTPConfig.Port (HTTP c) \<le> 0 \<or> HTTPConfig.Port (HTTP c) > 65535
        then Some (Err ''http.port must be between 1 and 65535'')
      else if Driver (Database c) = [] then Some (Err ''database.driver is required'')
      else if JWTSecret (Auth c) = [] \<and> Environment (App c) = ''production''
        then Some (Err ''auth.jwt_secret is required in production'')
      else if TLSConfig.Enabled (TLS (HTTP c))
              \<and> (CertFile (TLS (HTTP c)) = [] \<or> KeyFile (TLS (HTTP c)) = [])
        then Some (Err ''tls.cert_file and tls.key_file are required when TLS is enabled'')
      else None)"

definition GetConnectionString :: "Config \<Rightarrow> string" where
  "GetConnectionString c =
     (if Driver (Database c) = ''postgres'' then
        ''host='' @ DatabaseConfig.Host (Database c)
        @ '' port='' @ itoa (DatabaseConfig.Port (Database c))
        @ '' user='' @ Username (Database c)
        @ '' password='' @ DatabaseConfig.Password (Database c)
        @ '' dbname='' @ DatabaseConfig.Database (Database c)
        @ '' sslmode='' @ SSLMode (Database c)
      else if Driver (Database c) = ''mysql'' then
        Username (Database c) @ '':'' @ DatabaseConfig.Password (Database c)
        @ ''@tcp('' @ DatabaseConfig.Host (Database c) @ '':''
        @ itoa (DatabaseConfig.Port (Database c)) @ '')/''
        @ DatabaseConfig.Database (Database c) @ ''?parseTime=true''
      else [])"

definition GetRedisAddr :: "Config \<Rightarrow> string" where
  "GetRedisAddr c = RedisConfig.Host (Redis c) @ '':'' @ itoa (RedisConfig.Port (Redis c))"

definition IsProduction :: "Config \<Rightarrow> bool" where
  "IsProduction c = (Environment (App c) = ''production'')"

definition IsDevelopment :: "Config \<Rightarrow> bool" where
  "IsDevelopment c = (Environment (App c) = ''development'')"

section \<open>The world outside the process\<close>

text \<open>
  The program calls libraries (the configuration library, \<^verbatim>\<open>tableflip\<close>,
  \<^verbatim>\<open>go-sundheit\<close>, \<^verbatim>\<open>net/http\<close>, \<^verbatim>\<open>crypto/tls\<close>, \<^verbatim>\<open>os/signal\<close>) and the
  packages \<^verbatim>\<open>internal/platform/logger\<close>, \<^verbatim>\<open>database\<close> and \<^verbatim>\<open>redis\<close>, whose sources are
  not among the files at hand. What they answer is a parameter: the fields of an \<open>env\<close>
  record, over which every statement below is universally quantified. What the program
  does to them is recorded in a \<open>world\<close> that every function takes and returns: the calls
  made so far, in order, the lines logged so far, a clock in nanoseconds, the package
  variable \<^verbatim>\<open>configs.C\<close> and the names in the health registry.
\<close>

datatype Logger = LoggerHandle
datatype DB = DBHandle
datatype RedisClient = RedisHandle
datatype Upgrader = UpgraderHandle
datatype Health = HealthHandle
datatype Listener = Listener string string
datatype Certificate = Certificate string string

text \<open>A call to a collaborator. The two calls that create and register a health check
  carry the error they returned.\<close>

datatype call =
    LoggerNew
  | DatabaseNew
  | RedisNew
  | TableflipNew
  | GosundheitNew
  | NewHTTPCheck string string int "error option"
  | RegisterCheck string int int "error option"
  | UpgraderListen string string
  | GoServe
  | GoServeTLS string string
  | UpgraderReady
  | SignalNotify
  | ServerShutdown nat
  | HealthDeregisterAll
  | DBClose
  | RedisClose
  | UpgraderStop
  | HealthResults
  | DBPing
  | RedisPing

datatype level = LevelDebug | LevelInfo | LevelError

datatype log_entry = Log level string "error option" | Printf string

record world =
  clock :: nat
  calls :: "call list"
  logs :: "log_entry list"
  C :: "Config option"
  registry :: "string list"

text \<open>A call that may block: it never returns, or it returns a value after some time.\<close>

datatype 'a reply = Never | After nat 'a

text \<open>What \<^verbatim>\<open>select\<close> in \<^verbatim>\<open>Run\<close> wakes up on: the serving goroutine's result on
  \<^verbatim>\<open>errChan\<close>, a signal, or the upgrader's exit channel.\<close>

datatype wake = ServeReturned error | SignalReceived string | UpgraderExit

record env =
  load_defaults_result :: "error option"
  load_config_file_result :: "string \<Rightarrow> error option"
  koanf_environment :: string
  load_env_vars_result :: "error option"
  unmarshal_result :: "Config \<times> error option"
  logger_New_result :: "LoggingConfig \<Rightarrow> error option"
  database_New_result :: "DatabaseConfig \<Rightarrow> DB option \<times> error option"
  redis_New_result :: "RedisConfig \<Rightarrow> RedisClient option \<times> error option"
  tableflip_New_result :: "Upgrader option \<times> error option"
  NewHTTPCheck_result :: "string \<Rightarrow> string \<Rightarrow> int \<Rightarrow> error option"
  RegisterCheck_result :: "string list \<Rightarrow> string \<Rightarrow> error option"
  Results_result :: "string list \<Rightarrow> (string \<times> bool) list \<times> bool"
  DeregisterAll_reply :: "unit reply"
  db_Ping_result :: "error option"
  db_Close_reply :: "error option reply"
  redis_Ping_result :: "error option"
  redis_Close_reply :: "error option reply"
  Listen_result :: "string \<Rightarrow> string \<Rightarrow> Listener option \<times> error option"
  Ready_result :: "error option"
  Stop_reply :: "unit reply"
  select_reply :: "wake reply"
  drain_reply :: "error option reply"
  LoadX509KeyPair_result :: "string \<Rightarrow> string \<Rightarrow> error + Certificate"

text \<open>
  A function either returns a value, or blocks for ever in a call, or ends the process:
  by the panic of a method call through a nil pointer or interface, or in \<^verbatim>\<open>log.Fatal\<close>.
  Each outcome carries the world as it is at that point.
\<close>

datatype crash = NilDereference | LogFatal

datatype 'a outcome = Returns 'a world | Blocks world | Crashes crash world

fun final :: "'a outcome \<Rightarrow> world" where
  "final (Returns v w) = w"
| "final (Blocks w) = w"
| "final (Crashes c w) = w"

fun and_then :: "'a outcome \<Rightarrow> ('a \<Rightarrow> world \<Rightarrow> 'b outcome) \<Rightarrow> 'b outcome" where
  "and_then (Returns v w) f = f v w"
| "and_then (Blocks w) f = Blocks w"
| "and_then (Crashes c w) f = Crashes c w"

definition do_call :: "call \<Rightarrow> world \<Rightarrow> world" where
  "do_call c w = w\<lparr>calls := calls w @ [c]\<rparr>"

definition advance :: "nat \<Rightarrow> world \<Rightarrow> world" where
  "advance t w = w\<lparr>clock := clock w + t\<rparr>"

fun await :: "'a reply \<Rightarrow> world \<Rightarrow> 'a outcome" where
  "await Never w = Blocks w"
| "await (After t v) w = Returns v (advance t w)"

definition logger_Info :: "string \<Rightarrow> world \<Rightarrow> world" where
  "logger_Info m w = w\<lparr>logs := logs w @ [Log LevelInfo m None]\<rparr>"

definition logger_Debug :: "string \<Rightarrow> world \<Rightarrow> world" where
  "logger_Debug m w = w\<lparr>logs := logs w @ [Log LevelDebug m None]\<rparr>"

definition logger_Error :: "string \<Rightarrow> error \<Rightarrow> world \<Rightarrow> world" where
  "logger_Error m e w = w\<lparr>logs := logs w @ [Log LevelError m (Some e)]\<rparr>"

definition log_Printf :: "string \<Rightarrow> world \<Rightarrow> world" where
  "log_Printf m w = w\<lparr>logs := logs w @ [Printf m]\<rparr>"

section \<open>Loading the configuration\<close>

text \<open>\<^verbatim>\<open>loadConfigFile\<close>, \<^verbatim>\<open>loadDefaults\<close> and \<^verbatim>\<open>loadEnvVars\<close> only call the
  configuration library and the file system; their results come from the environment.\<close>

definition Load :: "env \<Rightarrow> world \<Rightarrow> error option \<times> world" where
  "Load env w0 =
     (case load_defaults_result env of
        Some e \<Rightarrow> (Some (Wrap ''failed to load defaults'' e), w0)
      | None \<Rightarrow>
        let w1 = (case load_config_file_result env ''configs/config.yaml'' of
                    Some e \<Rightarrow>
                      log_Printf (''Warning: Could not load base config file: '' @ Error e) w0
                  | None \<Rightarrow> w0);
            envConfigFile = ''configs/config.'' @ koanf_environment env @ ''.yaml'';
            w2 = (case load_config_file_result env envConfigFile of
                    Some e \<Rightarrow>
                      log_Printf (''Warning: Could not load environment config file ''
                                  @ envConfigFile @ '': '' @ Error e) w1
                  | None \<Rightarrow> w1)
        in case load_env_vars_result env of
             Some e \<Rightarrow> (Some (Wrap ''failed to load environment variables'' e), w2)
           | None \<Rightarrow>
             let w3 = w2\<lparr>C := Some (fst (unmarshal_result env))\<rparr>
             in case snd (unmarshal_result env) of
                  Some e \<Rightarrow> (Some (Wrap ''failed to unmarshal config'' e), w3)
                | None \<Rightarrow>
                  (case validate (fst (unmarshal_result env)) of
                     Some e \<Rightarrow> (Some (Wrap ''config validation failed'' e), w3)
                   | None \<Rightarrow> (None, w3)))"

definition Get :: "world \<Rightarrow> Config outcome" where
  "Get w =
     (case C w of
        None \<Rightarrow>
          Crashes LogFatal (log_Printf ''Configuration not loaded. Call config.Load() first.'' w)
      | Some c \<Rightarrow> Returns c w)"

section \<open>The HTTP server (internal/app/server.go)\<close>

text \<open>The router as \<^verbatim>\<open>setupRouter\<close> builds it: the middleware stack and the routes, each
  with the endpoint that serves it. It is the only \<^verbatim>\<open>http.Handler\<close> of the program.\<close>

datatype endpoint =
  HealthHandler | HealthzHandler | ReadinessHandler | LivenessHandler | ApiV1Root | Welcome

record Mux =
  middlewares :: "string list"
  routes :: "(string \<times> string \<times> endpoint) list"

datatype CipherSuite =
    TLS_ECDHE_RSA_WITH_AES_256_GCM_SHA384
  | TLS_ECDHE_RSA_WITH_CHACHA20_POLY1305
  | TLS_ECDHE_RSA_WITH_AES_128_GCM_SHA256
  | TLS_RSA_WITH_AES_256_GCM_SHA384
  | TLS_RSA_WITH_AES_128_GCM_SHA256

datatype CurveID = CurveP256 | X25519

datatype TLSVersion = VersionTLS12

record tls_Config =
  Certificates :: "Certificate list"
  MinVersion :: TLSVersion
  CipherSuites :: "CipherSuite list"
  PreferServerCipherSuites :: bool
  CurvePreferences :: "CurveID list"

text \<open>\<^verbatim>\<open>http.Server\<close>, with the fields the program sets.\<close>

record http_Server =
  Addr :: string
  Handler :: "Mux option"
  ReadTimeout :: int
  WriteTimeout :: int
  IdleTimeout :: int
  MaxHeaderBytes :: int
  ErrorLog :: "Logger option"
  TLSConfig :: "tls_Config option"

text \<open>The address \<^verbatim>\<open>fmt.Sprintf("%s:%d", Host, Port)\<close>.\<close>

definition listen_addr :: "Config \<Rightarrow> string" where
  "listen_addr c = HTTPConfig.Host (HTTP c) @ '':'' @ itoa (HTTPConfig.Port (HTTP c))"

record ServerOptions =
  Config :: "Config option"
  Logger :: "Logger option"
  Handler :: "Mux option"
  Upgrader :: "Upgrader option"

record Server =
  config :: Config
  logger :: Logger
  server :: "http_Server option"
  upgrader :: Upgrader
  listener :: "Listener option"

definition Server_setupTLS :: "env \<Rightarrow> Server \<Rightarrow> tls_Config option \<times> error option" where
  "Server_setupTLS env s =
     (case LoadX509KeyPair_result env (CertFile (TLS (HTTP (Server.config s))))
             (KeyFile (TLS (HTTP (Server.config s)))) of
        Inl e \<Rightarrow> (None, Some (Wrap ''failed to load TLS certificate'' e))
      | Inr cert \<Rightarrow>
        (Some \<lparr> Certificates = [cert],
                 MinVersion = VersionTLS12,
                 CipherSuites = [TLS_ECDHE_RSA_WITH_AES_256_GCM_SHA384,
                                 TLS_ECDHE_RSA_WITH_CHACHA20_POLY1305,
                                 TLS_ECDHE_RSA_WITH_AES_128_GCM_SHA256,
                                 TLS_RSA_WITH_AES_256_GCM_SHA384,
                                 TLS_RSA_WITH_AES_128_GCM_SHA256],
                 PreferServerCipherSuites = True,
                 CurvePreferences = [CurveP256, X25519] \<rparr>, None))"

definition Server_setupServer :: "env \<Rightarrow> Mux \<Rightarrow> Server \<Rightarrow> error option \<times> Server" where
  "Server_setupServer env handler s =
     (let srv = \<lparr> Addr = listen_addr (Server.config s),
                   http_Server.Handler = Some handler,
                   http_Server.ReadTimeout = HTTPConfig.ReadTimeout (HTTP (Server.config s)),
                   http_Server.WriteTimeout = HTTPConfig.WriteTimeout (HTTP (Server.config s)),
                   http_Server.IdleTimeout = HTTPConfig.IdleTimeout (HTTP (Server.config s)),
                   http_Server.MaxHeaderBytes = HTTPConfig.MaxHeaderBytes (HTTP (Server.config s)),
                   ErrorLog = Some (Server.logger s),
                   TLSConfig = None \<rparr>;
          s1 = s\<lparr>Server.server := Some srv\<rparr>
      in if TLSConfig.Enabled (TLS (HTTP (Server.config s))) then
           (case snd (Server_setupTLS env s1) of
              Some e \<Rightarrow> (Some (Wrap ''failed to setup TLS'' e), s1)
            | None \<Rightarrow>
              (None, s1\<lparr>Server.server :=
                         Some (srv\<lparr>TLSConfig := fst (Server_setupTLS env s1)\<rparr>)\<rparr>))
         else (None, s1))"

definition NewServer :: "env \<Rightarrow> ServerOptions \<Rightarrow> Server option \<times> error option" where
  "NewServer env opts =
     (case ServerOptions.Config opts of
        None \<Rightarrow> (None, Some (Err ''config is required''))
      | Some cfg \<Rightarrow>
        (case ServerOptions.Logger opts of
           None \<Rightarrow> (None, Some (Err ''logger is required''))
         | Some lg \<Rightarrow>
           (case ServerOptions.Handler opts of
              None \<Rightarrow> (None, Some (Err ''handler is required''))
            | Some h \<Rightarrow>
              (case ServerOptions.Upgrader opts of
                 None \<Rightarrow> (None, Some (Err ''upgrader is required''))
               | Some up \<Rightarrow>
                 (case fst (Server_setupServer env h
                              \<lparr> config = cfg, logger = lg, server = None, upgrader = up,
                                listener = None \<rparr>) of
                    Some e \<Rightarrow> (None, Some (Wrap ''failed to setup server'' e))
                  | None \<Rightarrow>
                    (Some (snd (Server_setupServer env h
                                  \<lparr> config = cfg, logger = lg, server = None, upgrader = up,
                                    listener = None \<rparr>)), None))))))"

section \<open>The application (package app)\<close>

text \<open>
  The struct \<^verbatim>\<open>App\<close>. A pointer or interface that the code compares with nil, or that is
  nil until a setup function sets it, is an option; \<^verbatim>\<open>config\<close> and \<^verbatim>\<open>logger\<close> are set by
  the only struct literal and read without a check.
\<close>

record App =
  config :: Config
  logger :: Logger
  router :: "Mux option"
  server :: "http_Server option"
  health :: "Health option"
  db :: "DB option"
  redis :: "RedisClient option"
  upgrader :: "Upgrader option"

definition setupRouter :: "App \<Rightarrow> world \<Rightarrow> (error option \<times> App) outcome" where
  "setupRouter a w0 =
     (let w1 = (if RateLimitConfig.Enabled (RateLimit (HTTP (config a)))
                then logger_Info ''Rate limiting is enabled but not implemented yet'' w0
                else w0)
      in case health a of
           None \<Rightarrow> Crashes NilDereference w1
         | Some h \<Rightarrow>
           Returns (None,
             a\<lparr>router := Some \<lparr>
                  middlewares = [''RequestID'', ''RealIP'', ''Logger'', ''Recoverer'',
                                 ''Heartbeat /ping'', ''Timeout 60s'', ''CORS''],
                  routes = [(''*'', ''/health'', HealthHandler),
                            (''GET'', ''/healthz'', HealthzHandler),
                            (''GET'', ''/readiness'', ReadinessHandler),
                            (''GET'', ''/liveness'', LivenessHandler),
                            (''GET'', ''/api/v1/'', ApiV1Root),
                            (''GET'', ''/'', Welcome)] \<rparr>\<rparr>) w1)"

definition setupServer :: "App \<Rightarrow> error option \<times> App" where
  "setupServer a =
     (None,
      a\<lparr>server := Some \<lparr>
           Addr = listen_addr (config a),
           Handler = router a,
           http_Server.ReadTimeout = HTTPConfig.ReadTimeout (HTTP (config a)),
           http_Server.WriteTimeout = HTTPConfig.WriteTimeout (HTTP (config a)),
           http_Server.IdleTimeout = HTTPConfig.IdleTimeout (HTTP (config a)),
           http_Server.MaxHeaderBytes = HTTPConfig.MaxHeaderBytes (HTTP (config a)),
           ErrorLog = None,
           TLSConfig = None \<rparr>\<rparr>)"

text \<open>\<^verbatim>\<open>a.health.RegisterCheck(check, InitialDelay(d), ExecutionPeriod(p))\<close>: the library's
  answer may depend on the names registered so far; a registered name joins them.\<close>

definition health_RegisterCheck ::
  "env \<Rightarrow> App \<Rightarrow> string \<Rightarrow> int \<Rightarrow> int \<Rightarrow> world \<Rightarrow> error option outcome" where
  "health_RegisterCheck env a name d p w =
     (case health a of
        None \<Rightarrow> Crashes NilDereference w
      | Some h \<Rightarrow>
        (case RegisterCheck_result env (registry w) name of
           Some e \<Rightarrow> Returns (Some e) (do_call (RegisterCheck name d p (Some e)) w)
         | None \<Rightarrow>
           Returns None ((do_call (RegisterCheck name d p None) w)
                           \<lparr>registry := registry w @ [name]\<rparr>)))"

text \<open>The loop of \<^verbatim>\<open>setupHealthChecks\<close> over \<^verbatim>\<open>ExternalChecks\<close>.\<close>

fun externalChecks :: "env \<Rightarrow> App \<Rightarrow> string list \<Rightarrow> world \<Rightarrow> error option outcome" where
  "externalChecks env a [] w = Returns None w"
| "externalChecks env a (url # urls) w =
     (let w1 = do_call (NewHTTPCheck (''http_'' @ url) url
                          (HealthConfig.Timeout (Health (config a)))
                          (NewHTTPCheck_result env (''http_'' @ url) url
                             (HealthConfig.Timeout (Health (config a))))) w
      in case NewHTTPCheck_result env (''http_'' @ url) url
                (HealthConfig.Timeout (Health (config a))) of
           Some e \<Rightarrow>
             Returns (Some (Wrap (''failed to create HTTP health check for '' @ url) e)) w1
         | None \<Rightarrow>
           (case health_RegisterCheck env a (''http_'' @ url) (5 * Second)
                   (CheckInterval (Health (config a))) w1 of
              Returns (Some e) w2 \<Rightarrow>
                Returns (Some (Wrap (''failed to register HTTP health check for '' @ url) e)) w2
            | Returns None w2 \<Rightarrow> externalChecks env a urls w2
            | Blocks w2 \<Rightarrow> Blocks w2
            | Crashes c w2 \<Rightarrow> Crashes c w2))"

definition setupHealthChecks :: "env \<Rightarrow> App \<Rightarrow> world \<Rightarrow> error option outcome" where
  "setupHealthChecks env a w0 =
     (if \<not> HealthConfig.Enabled (Health (config a)) then Returns None w0
      else
        and_then
          (if DatabaseCheck (Health (config a)) \<and> db a \<noteq> None
           then health_RegisterCheck env a ''database'' (2 * Second)
                  (CheckInterval (Health (config a))) w0
           else Returns None w0)
          (\<lambda>err w1. case err of
             Some e \<Rightarrow> Returns (Some (Wrap ''failed to register database health check'' e)) w1
           | None \<Rightarrow>
             and_then
               (if RedisCheck (Health (config a)) \<and> redis a \<noteq> None
                then health_RegisterCheck env a ''redis'' (2 * Second)
                       (CheckInterval (Health (config a))) w1
                else Returns None w1)
               (\<lambda>err w2. case err of
                  Some e \<Rightarrow>
                    Returns (Some (Wrap ''failed to register redis health check'' e)) w2
                | None \<Rightarrow> externalChecks env a (ExternalChecks (Health (config a))) w2)))"

text \<open>The last part of \<^verbatim>\<open>New\<close>: the struct literal and the three setup functions.\<close>

definition New_setup ::
  "env \<Rightarrow> Config \<Rightarrow> DB option \<Rightarrow> RedisClient option \<Rightarrow> Upgrader option \<Rightarrow> world
     \<Rightarrow> (App option \<times> error option) outcome" where
  "New_setup env cfg d r u w0 =
     and_then
       (setupRouter \<lparr> config = cfg, logger = LoggerHandle, router = None, server = None,
                      health = Some HealthHandle, db = d, redis = r, upgrader = u \<rparr> w0)
       (\<lambda>res w1. case fst res of
          Some e \<Rightarrow> Returns (None, Some (Wrap ''failed to setup router'' e)) w1
        | None \<Rightarrow>
          (case fst (setupServer (snd res)) of
             Some e \<Rightarrow> Returns (None, Some (Wrap ''failed to setup server'' e)) w1
           | None \<Rightarrow>
             and_then (setupHealthChecks env (snd (setupServer (snd res))) w1)
               (\<lambda>err w2. case err of
                  Some e \<Rightarrow> Returns (None, Some (Wrap ''failed to setup health checks'' e)) w2
                | None \<Rightarrow> Returns (Some (snd (setupServer (snd res))), None) w2)))"

definition New :: "env \<Rightarrow> world \<Rightarrow> (App option \<times> error option) outcome" where
  "New env w0 =
     (case fst (Load env w0) of
        Some e \<Rightarrow> Returns (None, Some (Wrap ''failed to load config'' e)) (snd (Load env w0))
      | None \<Rightarrow>
        and_then (Get (snd (Load env w0)))
          (\<lambda>cfg w1.
             let w2 = do_call LoggerNew w1 in
             case logger_New_result env (Logging cfg) of
               Some e \<Rightarrow> Returns (None, Some (Wrap ''failed to initialize logger'' e)) w2
             | None \<Rightarrow>
               let w3 = do_call DatabaseNew w2 in
               case snd (database_New_result env (Database cfg)) of
                 Some e \<Rightarrow>
                   Returns (None, Some (Wrap ''failed to initialize database'' e))
                     (logger_Error ''Failed to initialize database'' e w3)
               | None \<Rightarrow>
                 let w4 = do_call RedisNew w3 in
                 case snd (redis_New_result env (Redis cfg)) of
                   Some e \<Rightarrow>
                     Returns (None, Some (Wrap ''failed to initialize Redis'' e))
                       (logger_Error ''Failed to initialize Redis'' e w4)
                 | None \<Rightarrow>
                   let w5 = do_call TableflipNew w4 in
                   case snd (tableflip_New_result env) of
                     Some e \<Rightarrow>
                       Returns (None, Some (Wrap ''failed to create tableflip upgrader'' e))
                         (logger_Error ''Failed to create tableflip upgrader'' e w5)
                   | None \<Rightarrow>
                     New_setup env cfg
                       (fst (database_New_result env (Database cfg)))
                       (fst (redis_New_result env (Redis cfg)))
                       (fst (tableflip_New_result env))
                       ((do_call GosundheitNew w5)\<lparr>registry := []\<rparr>)))"

section \<open>Running and shutting down\<close>

definition ErrServerClosed :: error where
  "ErrServerClosed = Err ''http: Server closed''"

definition DeadlineExceeded :: error where
  "DeadlineExceeded = Err ''context deadline exceeded''"

text \<open>
  \<^verbatim>\<open>(*http.Server).Shutdown(ctx)\<close> belongs to the standard library. As documented there, it
  closes the listeners and waits until the connections are idle, and returns the error of
  closing; when the context expires first, it returns the context's error. The
  environment says how long the draining takes (\<open>drain_reply\<close>); the context is its
  deadline on the clock.
\<close>

definition server_Shutdown :: "env \<Rightarrow> nat \<Rightarrow> world \<Rightarrow> error option outcome" where
  "server_Shutdown env deadline w =
     (let budget = deadline - clock w;
          w1 = do_call (ServerShutdown budget) w
      in case drain_reply env of
           Never \<Rightarrow> Returns (Some DeadlineExceeded) (advance budget w1)
         | After t r \<Rightarrow>
             if t \<le> budget then Returns r (advance t w1)
             else Returns (Some DeadlineExceeded) (advance budget w1))"

text \<open>The four steps of \<^verbatim>\<open>Shutdown\<close> after the server's: each is guarded by a nil check,
  and none of the calls takes the context.\<close>

definition stop_health_checker :: "env \<Rightarrow> App \<Rightarrow> world \<Rightarrow> unit outcome" where
  "stop_health_checker env a w =
     (case health a of
        None \<Rightarrow> Returns () w
      | Some h \<Rightarrow>
        and_then (await (DeregisterAll_reply env) (do_call HealthDeregisterAll w))
          (\<lambda>u w1. Returns () (w1\<lparr>registry := []\<rparr>)))"

definition close_database :: "env \<Rightarrow> App \<Rightarrow> world \<Rightarrow> unit outcome" where
  "close_database env a w =
     (case db a of
        None \<Rightarrow> Returns () w
      | Some d \<Rightarrow>
        and_then (await (db_Close_reply env) (do_call DBClose w))
          (\<lambda>err w1. Returns () (case err of
             Some e \<Rightarrow> logger_Error ''Database close error'' e w1
           | None \<Rightarrow> w1)))"

definition close_redis :: "env \<Rightarrow> App \<Rightarrow> world \<Rightarrow> unit outcome" where
  "close_redis env a w =
     (case redis a of
        None \<Rightarrow> Returns () w
      | Some r \<Rightarrow>
        and_then (await (redis_Close_reply env) (do_call RedisClose w))
          (\<lambda>err w1. Returns () (case err of
             Some e \<Rightarrow> logger_Error ''Redis close error'' e w1
           | None \<Rightarrow> w1)))"

definition stop_upgrader :: "env \<Rightarrow> App \<Rightarrow> world \<Rightarrow> unit outcome" where
  "stop_upgrader env a w =
     (case upgrader a of
        None \<Rightarrow> Returns () w
      | Some up \<Rightarrow> await (Stop_reply env) (do_call UpgraderStop w))"

definition Shutdown :: "env \<Rightarrow> App \<Rightarrow> world \<Rightarrow> error option outcome" where
  "Shutdown env a w0 =
     (let w1 = logger_Info ''Shutting down application...'' w0;
          ctx = clock w1 + nat (ShutdownConfig.Timeout (AppConfig.Shutdown (App (config a))))
      in case server a of
           None \<Rightarrow> Crashes NilDereference w1
         | Some srv \<Rightarrow>
           and_then (server_Shutdown env ctx w1)
             (\<lambda>err w2.
                and_then
                  (stop_health_checker env a
                     (case err of
                        Some e \<Rightarrow> logger_Error ''Server shutdown error'' e w2
                      | None \<Rightarrow> w2))
                  (\<lambda>u w3.
                     and_then (close_database env a w3)
                       (\<lambda>u w4.
                          and_then (close_redis env a w4)
                            (\<lambda>u w5.
                               and_then (stop_upgrader env a w5)
                                 (\<lambda>u w6.
                                    Returns None
                                      (logger_Info ''Application shutdown complete'' w6)))))))"

text \<open>
  \<^verbatim>\<open>Run\<close>. The \<^verbatim>\<open>go\<close> statement that starts serving is the call \<open>GoServe\<close> (or
  \<open>GoServeTLS\<close>); what the goroutine sends on \<^verbatim>\<open>errChan\<close> reaches \<^verbatim>\<open>Run\<close> only through the
  \<^verbatim>\<open>select\<close>, whose outcome the environment gives. A nil \<^verbatim>\<open>server\<close> makes the goroutine
  panic, which ends the process.
\<close>

definition Run :: "env \<Rightarrow> App \<Rightarrow> world \<Rightarrow> error option outcome" where
  "Run env a w0 =
     (case upgrader a of
        None \<Rightarrow> Crashes NilDereference w0
      | Some up \<Rightarrow>
        let addr = listen_addr (config a);
            w1 = do_call (UpgraderListen ''tcp'' addr) w0
        in case snd (Listen_result env ''tcp'' addr) of
             Some e \<Rightarrow> Returns (Some (Wrap (''failed to listen on '' @ addr) e)) w1
           | None \<Rightarrow>
             let w2 = logger_Info ''Starting server'' w1;
                 w3 = do_call (if TLSConfig.Enabled (TLS (HTTP (config a)))
                               then GoServeTLS (CertFile (TLS (HTTP (config a))))
                                               (KeyFile (TLS (HTTP (config a))))
                               else GoServe) w2
             in case server a of
                  None \<Rightarrow> Crashes NilDereference w3
                | Some srv \<Rightarrow>
                  let w4 = do_call UpgraderReady w3
                  in case Ready_result env of
                       Some e \<Rightarrow> Returns (Some (Wrap ''failed to signal ready'' e)) w4
                     | None \<Rightarrow>
                       and_then (await (select_reply env) (do_call SignalNotify w4))
                         (\<lambda>wk w5. case wk of
                            ServeReturned err \<Rightarrow>
                              if err \<noteq> ErrServerClosed
                              then Returns (Some (Wrap ''server error'' err)) w5
                              else Shutdown env a w5
                          | SignalReceived sig \<Rightarrow>
                              Shutdown env a (logger_Info ''Received shutdown signal'' w5)
                          | UpgraderExit \<Rightarrow>
                              Shutdown env a (logger_Info ''Received upgrade signal'' w5)))"

text \<open>The two calls that \<^verbatim>\<open>main\<close> makes to start the application: \<^verbatim>\<open>app.New()\<close>, and
  \<^verbatim>\<open>application.Run()\<close> when that returned no error.\<close>

definition startup :: "env \<Rightarrow> world \<Rightarrow> error option outcome" where
  "startup env w0 =
     and_then (New env w0)
       (\<lambda>res w1. case snd res of
          Some e \<Rightarrow> Returns (Some e) w1
        | None \<Rightarrow>
          (case fst res of
             None \<Rightarrow> Crashes NilDereference w1
           | Some a \<Rightarrow> Run env a w1))"

section \<open>The probe endpoints\<close>

text \<open>What a handler does to its \<^verbatim>\<open>http.ResponseWriter\<close>: the first \<^verbatim>\<open>WriteHeader\<close> fixes the
  status, and a \<^verbatim>\<open>Write\<close> before any \<^verbatim>\<open>WriteHeader\<close> fixes it to 200.\<close>

record ResponseWriter =
  header :: "string \<rightharpoonup> string"
  status :: "nat option"
  body :: string

definition StatusOK :: nat where
  "StatusOK = 200"

definition StatusServiceUnavailable :: nat where
  "StatusServiceUnavailable = 503"

definition Header_Set :: "string \<Rightarrow> string \<Rightarrow> ResponseWriter \<Rightarrow> ResponseWriter" where
  "Header_Set k v rw = rw\<lparr>header := (header rw)(k \<mapsto> v)\<rparr>"

definition WriteHeader :: "nat \<Rightarrow> ResponseWriter \<Rightarrow> ResponseWriter" where
  "WriteHeader code rw = (if status rw = None then rw\<lparr>status := Some code\<rparr> else rw)"

definition Write :: "string \<Rightarrow> ResponseWriter \<Rightarrow> ResponseWriter" where
  "Write bs rw = (WriteHeader StatusOK rw)\<lparr>body := body rw @ bs\<rparr>"

definition healthzHandler ::
  "env \<Rightarrow> App \<Rightarrow> ResponseWriter \<Rightarrow> world \<Rightarrow> ResponseWriter outcome" where
  \<open>healthzHandler env a rw w =
     (case health a of
        None \<Rightarrow> Crashes NilDereference w
      | Some h \<Rightarrow>
        let healthy = snd (Results_result env (registry w));
            rw1 = Header_Set ''Content-Type'' ''application/json'' rw;
            rw2 = (if \<not> healthy
                   then Write ''{"status": "unhealthy"}''
                          (WriteHeader StatusServiceUnavailable rw1)
                   else Write ''{"status": "healthy"}'' (WriteHeader StatusOK rw1))
        in Returns rw2 (logger_Debug ''Health check'' (do_call HealthResults w)))\<close>

text \<open>\<^verbatim>\<open>readinessHandler\<close> fills the map \<^verbatim>\<open>checks\<close> and builds \<^verbatim>\<open>response\<close> from it, and then
  writes a fixed body; both are kept here as the code has them.\<close>

definition readinessHandler ::
  "env \<Rightarrow> App \<Rightarrow> ResponseWriter \<Rightarrow> world \<Rightarrow> ResponseWriter outcome" where
  \<open>readinessHandler env a rw w0 =
     (let ready0 = True;
          checks0 = (Map.empty :: string \<rightharpoonup> string);
          (ready1, checks1, w1) =
            (case db a of
               None \<Rightarrow> (ready0, checks0, w0)
             | Some d \<Rightarrow>
               (case db_Ping_result env of
                  Some err \<Rightarrow>
                    (False, checks0(''database'' \<mapsto> ''unhealthy''), do_call DBPing w0)
                | None \<Rightarrow>
                    (ready0, checks0(''database'' \<mapsto> ''healthy''), do_call DBPing w0)));
          (ready2, checks2, w2) =
            (case redis a of
               None \<Rightarrow> (ready1, checks1, w1)
             | Some r \<Rightarrow>
               (case redis_Ping_result env of
                  Some err \<Rightarrow>
                    (False, checks1(''redis'' \<mapsto> ''unhealthy''), do_call RedisPing w1)
                | None \<Rightarrow>
                    (ready1, checks1(''redis'' \<mapsto> ''healthy''), do_call RedisPing w1)));
          rw1 = Header_Set ''Content-Type'' ''application/json'' rw;
          rw2 = (if \<not> ready2 then WriteHeader StatusServiceUnavailable rw1
                 else WriteHeader StatusOK rw1);
          response = (ready2, checks2)
      in Returns (if ready2 then Write ''{"ready": true}'' rw2
                  else Write ''{"ready": false}'' rw2) w2)\<close>

definition livenessHandler :: "ResponseWriter \<Rightarrow> ResponseWriter" where
  \<open>livenessHandler rw =
     Write ''{"alive": true}''
       (WriteHeader StatusOK (Header_Set ''Content-Type'' ''application/json'' rw))\<close>

section \<open>Concrete worlds\<close>

text \<open>The world before the process has done anything.\<close>

definition world0 :: world where
  "world0 = \<lparr> clock = 0, calls = [], logs = [], C = None, registry = [] \<rparr>"

text \<open>An environment in which every collaborator answers, without an error: the
  configuration is the defaults, every health check is healthy, a termination signal
  arrives after five time units, and each shutdown step takes one or two.\<close>

definition env_ok :: env where
  "env_ok = \<lparr>
     load_defaults_result = None,
     load_config_file_result = (\<lambda>path. None),
     koanf_environment = ''development'',
     load_env_vars_result = None,
     unmarshal_result = (defaults, None),
     logger_New_result = (\<lambda>c. None),
     database_New_result = (\<lambda>c. (Some DBHandle, None)),
     redis_New_result = (\<lambda>c. (Some RedisHandle, None)),
     tableflip_New_result = (Some UpgraderHandle, None),
     NewHTTPCheck_result = (\<lambda>name url t. None),
     RegisterCheck_result = (\<lambda>reg name. None),
     Results_result = (\<lambda>reg. (map (\<lambda>name. (name, True)) reg, True)),
     DeregisterAll_reply = After 1 (),
     db_Ping_result = None,
     db_Close_reply = After 1 None,
     redis_Ping_result = None,
     redis_Close_reply = After 1 None,
     Listen_result = (\<lambda>network addr. (Some (Listener network addr), None)),
     Ready_result = None,
     Stop_reply = After 1 (),
     select_reply = After 5 (SignalReceived ''terminated''),
     drain_reply = After 2 None,
     LoadX509KeyPair_result = (\<lambda>cert key. Inr (Certificate cert key)) \<rparr>"

text \<open>The application that \<^verbatim>\<open>New\<close> builds from the defaults.\<close>

definition app_ok :: App where
  "app_ok = snd (setupServer (\<lparr>
     config = defaults, logger = LoggerHandle,
     router = Some \<lparr>
       middlewares = [''RequestID'', ''RealIP'', ''Logger'', ''Recoverer'',
                      ''Heartbeat /ping'', ''Timeout 60s'', ''CORS''],
       routes = [(''*'', ''/health'', HealthHandler),
                 (''GET'', ''/healthz'', HealthzHandler),
                 (''GET'', ''/readiness'', ReadinessHandler),
                 (''GET'', ''/liveness'', LivenessHandler),
                 (''GET'', ''/api/v1/'', ApiV1Root),
                 (''GET'', ''/'', Welcome)] \<rparr>,
     server = None, health = Some HealthHandle, db = Some DBHandle,
     redis = Some RedisHandle, upgrader = Some UpgraderHandle \<rparr>))"

text \<open>A fresh response, as a handler receives it.\<close>

definition response0 :: ResponseWriter where
  "response0 = \<lparr> header = Map.empty, status = None, body = [] \<rparr>"

text \<open>The same environment, except that every shutdown step that can fail does: the
  server's drain, the database's close and Redis's close each return an error.\<close>

definition env_failing :: env where
  "env_failing = env_ok\<lparr>
     drain_reply := After 2 (Some (Err ''close tcp: use of closed network connection'')),
     db_Close_reply := After 1 (Some (Err ''sql: database is closed'')),
     redis_Close_reply := After 1 (Some (Err ''redis: client is closed'')) \<rparr>"

text \<open>The same environment, except that the database's \<^verbatim>\<open>Close\<close> never returns.\<close>

definition env_db_hangs :: env where
  "env_db_hangs = env_ok\<lparr>db_Close_reply := Never\<rparr>"

text \<open>The same environment, except that the registry refuses the database check.\<close>

definition env_register_fails :: env where
  "env_register_fails = env_ok\<lparr>
     RegisterCheck_result :=
       (\<lambda>reg name. if name = ''database'' then Some (Err ''check is not valid'') else None) \<rparr>"

text \<open>The same environment, except that the listener cannot be acquired.\<close>

definition env_listen_fails :: env where
  "env_listen_fails = env_ok\<lparr>
     Listen_result := (\<lambda>network addr. (None, Some (Err ''bind: address already in use''))) \<rparr>"

text \<open>The world after \<^verbatim>\<open>New\<close> has built the application in the environment \<open>env_ok\<close>.\<close>

definition world_started :: world where
  "world_started = \<lparr>
     clock = 0,
     calls = [LoggerNew, DatabaseNew, RedisNew, TableflipNew, GosundheitNew,
              RegisterCheck ''database'' (2 * Second) (30 * Second) None,
              RegisterCheck ''redis'' (2 * Second) (30 * Second) None],
     logs = [],
     C = Some defaults,
     registry = [''database'', ''redis''] \<rparr>"

text \<open>Options for \<^verbatim>\<open>NewServer\<close>: complete ones, and a configuration with TLS switched on in
  an environment where the key pair cannot be loaded.\<close>

definition opts_ok :: ServerOptions where
  "opts_ok = \<lparr> Config = Some defaults, Logger = Some LoggerHandle,
               ServerOptions.Handler = router app_ok, Upgrader = Some UpgraderHandle \<rparr>"

definition tls_defaults :: Config where
  "tls_defaults = defaults\<lparr>HTTP := (HTTP defaults)\<lparr>TLS :=
     \<lparr> TLSConfig.Enabled = True, CertFile = ''cert.pem'', KeyFile = ''key.pem'' \<rparr>\<rparr>\<rparr>"

definition env_tls_fails :: env where
  "env_tls_fails = env_ok\<lparr>
     LoadX509KeyPair_result :=
       (\<lambda>cert key. Inl (Err ''open cert.pem: no such file or directory'')) \<rparr>"

section \<open>What a shutdown step costs and calls\<close>

text \<open>The time a guarded step takes: nothing when its collaborator is nil, the time of
  the call when it returns, and \<open>None\<close> when the call never returns.\<close>

definition step_time :: "'h option \<Rightarrow> 'a reply \<Rightarrow> nat option" where
  "step_time h r =
     (case h of
        None \<Rightarrow> Some 0
      | Some x \<Rightarrow> (case r of Never \<Rightarrow> None | After t v \<Rightarrow> Some t))"

definition step_calls :: "'h option \<Rightarrow> call \<Rightarrow> call list" where
  "step_calls h c = (case h of None \<Rightarrow> [] | Some x \<Rightarrow> [c])"

fun plus_time :: "nat option \<Rightarrow> nat option \<Rightarrow> nat option" where
  "plus_time (Some s) (Some t) = Some (s + t)"
| "plus_time s t = None"

text \<open>The time of the four steps that follow the server's.\<close>

definition tail_time :: "env \<Rightarrow> App \<Rightarrow> nat option" where
  "tail_time env a =
     plus_time
       (plus_time
          (plus_time (step_time (health a) (DeregisterAll_reply env))
                     (step_time (db a) (db_Close_reply env)))
          (step_time (redis a) (redis_Close_reply env)))
       (step_time (upgrader a) (Stop_reply env))"

text \<open>The time the server's step takes within a budget, by \<open>server_Shutdown\<close>.\<close>

definition drain_time :: "env \<Rightarrow> nat \<Rightarrow> nat" where
  "drain_time env budget =
     (case drain_reply env of Never \<Rightarrow> budget | After t r \<Rightarrow> min t budget)"

definition shutdown_budget :: "App \<Rightarrow> nat" where
  "shutdown_budget a = nat (ShutdownConfig.Timeout (AppConfig.Shutdown (App (config a))))"

text \<open>The calls of a shutdown in which no step blocks.\<close>

definition shutdown_calls :: "App \<Rightarrow> call list" where
  "shutdown_calls a =
     [ServerShutdown (shutdown_budget a)]
     @ step_calls (health a) HealthDeregisterAll
     @ step_calls (db a) DBClose
     @ step_calls (redis a) RedisClose
     @ step_calls (upgrader a) UpgraderStop"

text \<open>A function returned, and did so by a given time on the clock.\<close>

fun returns_by :: "'a outcome \<Rightarrow> nat \<Rightarrow> bool" where
  "returns_by (Returns v w) d = (clock w \<le> d)"
| "returns_by (Blocks w) d = False"
| "returns_by (Crashes c w) d = False"


fun is_check_call :: "call \<Rightarrow> bool" where
  "is_check_call (NewHTTPCheck name url t r) = True"
| "is_check_call (RegisterCheck name d p r) = True"
| "is_check_call c = False"

text \<open>The creation or the registration of a health check that returned an error.\<close>

fun check_failed :: "call \<Rightarrow> bool" where
  "check_failed (NewHTTPCheck name url t (Some e)) = True"
| "check_failed (RegisterCheck name d p (Some e)) = True"
| "check_failed c = False"

text \<open>The error that such a call carries, and the message under which
  \<^verbatim>\<open>setupHealthChecks\<close> wraps the error of the call: the database's and Redis's checks are
  registered under their names, the check of an external URL under \<^verbatim>\<open>http_\<close> and the URL.\<close>

fun call_error :: "call \<Rightarrow> error option" where
  "call_error (NewHTTPCheck name url t r) = r"
| "call_error (RegisterCheck name d p r) = r"
| "call_error c = None"

fun failure_message :: "call \<Rightarrow> string" where
  "failure_message (NewHTTPCheck name url t r) = ''failed to create HTTP health check for '' @ url"
| "failure_message (RegisterCheck name d p r) =
     (if name = ''database'' then ''failed to register database health check''
      else if name = ''redis'' then ''failed to register redis health check''
      else ''failed to register HTTP health check for '' @ drop 5 name)"
| "failure_message c = []"

text \<open>The value a function returned, if it returned.\<close>

fun result :: "'a outcome \<Rightarrow> 'a option" where
  "result (Returns v w) = Some v"
| "result (Blocks w) = None"
| "result (Crashes c w) = None"

text \<open>A line logged at the level of an error.\<close>

fun is_error_log :: "log_entry \<Rightarrow> bool" where
  "is_error_log (Log LevelError m e) = True"
| "is_error_log l = False"

section \<open>Properties of the configuration\<close>

lemma utoa_digit: "n < 10 \<Longrightarrow> utoa n = [''0123456789'' ! n]"
  by (simp add: utoa.simps)

lemma utoa_more: "10 \<le> n \<Longrightarrow> utoa n = utoa (n div 10) @ [''0123456789'' ! (n mod 10)]"
  by (subst utoa.simps) simp

lemma GetConnectionString_defaults:
  "GetConnectionString defaults =
     ''host=localhost port=5432 user=postgres password=password dbname=medical_rep sslmode=disable''"
  by (simp add: GetConnectionString_def defaults_def itoa_def utoa_digit utoa_more)

section \<open>Lemmas about the shutdown steps\<close>

lemma do_call_simps [simp]:
  "calls (do_call c w) = calls w @ [c]" "clock (do_call c w) = clock w"
  "logs (do_call c w) = logs w" "registry (do_call c w) = registry w" "C (do_call c w) = C w"
  by (simp_all add: do_call_def)

lemma advance_simps [simp]:
  "calls (advance t w) = calls w" "clock (advance t w) = clock w + t"
  by (simp_all add: advance_def)

lemma logger_simps [simp]:
  "calls (logger_Info m w) = calls w" "clock (logger_Info m w) = clock w"
  "calls (logger_Error m e w) = calls w" "clock (logger_Error m e w) = clock w"
  "calls (logger_Debug m w) = calls w" "clock (logger_Debug m w) = clock w"
  "calls (log_Printf m w) = calls w" "clock (log_Printf m w) = clock w"
  by (simp_all add: logger_Info_def logger_Error_def logger_Debug_def log_Printf_def)

lemma server_Shutdown_returns:
  "\<exists>err w'. server_Shutdown env (clock w + b) w = Returns err w'
     \<and> calls w' = calls w @ [ServerShutdown b]
     \<and> clock w' = clock w + drain_time env b"
  by (cases "drain_reply env") (auto simp: server_Shutdown_def drain_time_def Let_def min_def)

lemma stop_health_checker_returns:
  assumes "step_time (health a) (DeregisterAll_reply env) = Some t"
  shows "\<exists>w'. stop_health_checker env a w = Returns () w'
     \<and> calls w' = calls w @ step_calls (health a) HealthDeregisterAll
     \<and> clock w' = clock w + t"
  using assms
  by (auto simp: stop_health_checker_def step_time_def step_calls_def
           split: option.splits reply.splits)

lemma stop_health_checker_blocks:
  assumes "step_time (health a) (DeregisterAll_reply env) = None"
  shows "stop_health_checker env a w = Blocks (do_call HealthDeregisterAll w)"
  using assms
  by (auto simp: stop_health_checker_def step_time_def split: option.splits reply.splits)

lemma close_database_returns:
  assumes "step_time (db a) (db_Close_reply env) = Some t"
  shows "\<exists>w'. close_database env a w = Returns () w'
     \<and> calls w' = calls w @ step_calls (db a) DBClose
     \<and> clock w' = clock w + t"
  using assms
  by (auto simp: close_database_def step_time_def step_calls_def
           split: option.splits reply.splits)

lemma close_database_blocks:
  assumes "step_time (db a) (db_Close_reply env) = None"
  shows "close_database env a w = Blocks (do_call DBClose w)"
  using assms
  by (auto simp: close_database_def step_time_def split: option.splits reply.splits)

lemma close_redis_returns:
  assumes "step_time (redis a) (redis_Close_reply env) = Some t"
  shows "\<exists>w'. close_redis env a w = Returns () w'
     \<and> calls w' = calls w @ step_calls (redis a) RedisClose
     \<and> clock w' = clock w + t"
  using assms
  by (auto simp: close_redis_def step_time_def step_calls_def
           split: option.splits reply.splits)

lemma close_redis_blocks:
  assumes "step_time (redis a) (redis_Close_reply env) = None"
  shows "close_redis env a w = Blocks (do_call RedisClose w)"
  using assms
  by (auto simp: close_redis_def step_time_def split: option.splits reply.splits)

lemma stop_upgrader_returns:
  assumes "step_time (upgrader a) (Stop_reply env) = Some t"
  shows "\<exists>w'. stop_upgrader env a w = Returns () w'
     \<and> calls w' = calls w @ step_calls (upgrader a) UpgraderStop
     \<and> clock w' = clock w + t"
  using assms
  by (auto simp: stop_upgrader_def step_time_def step_calls_def
           split: option.splits reply.splits)

lemma stop_upgrader_blocks:
  assumes "step_time (upgrader a) (Stop_reply env) = None"
  shows "stop_upgrader env a w = Blocks (do_call UpgraderStop w)"
  using assms
  by (auto simp: stop_upgrader_def step_time_def split: option.splits reply.splits)

lemma plus_time_Some:
  "plus_time s t = Some n \<longleftrightarrow> (\<exists>i j. s = Some i \<and> t = Some j \<and> n = i + j)"
  by (cases s; cases t) auto

lemma plus_time_None: "plus_time s t = None \<longleftrightarrow> s = None \<or> t = None"
  by (cases s; cases t) auto

lemma Shutdown_returns:
  assumes srv: "server a = Some srv" and tt: "tail_time env a = Some t"
  shows "\<exists>w'. Shutdown env a w = Returns None w'
     \<and> calls w' = calls w @ shutdown_calls a
     \<and> clock w' = clock w + drain_time env (shutdown_budget a) + t"
proof -
  from tt obtain t1 t2 t3 t4 where
    t1: "step_time (health a) (DeregisterAll_reply env) = Some t1" and
    t2: "step_time (db a) (db_Close_reply env) = Some t2" and
    t3: "step_time (redis a) (redis_Close_reply env) = Some t3" and
    t4: "step_time (upgrader a) (Stop_reply env) = Some t4" and
    t: "t = t1 + t2 + t3 + t4"
    by (auto simp: tail_time_def plus_time_Some)
  let ?w1 = "logger_Info ''Shutting down application...'' w"
  obtain err w2 where
    s1: "server_Shutdown env (clock ?w1 + shutdown_budget a) ?w1 = Returns err w2" and
    c2: "calls w2 = calls w @ [ServerShutdown (shutdown_budget a)]" and
    k2: "clock w2 = clock w + drain_time env (shutdown_budget a)"
    using server_Shutdown_returns [of env ?w1 "shutdown_budget a"] by auto
  let ?w2 = "case err of Some e \<Rightarrow> logger_Error ''Server shutdown error'' e w2 | None \<Rightarrow> w2"
  have c2': "calls ?w2 = calls w2" and k2': "clock ?w2 = clock w2"
    by (simp_all split: option.splits)
  obtain w3 where
    s3: "stop_health_checker env a ?w2 = Returns () w3" and
    c3: "calls w3 = calls ?w2 @ step_calls (health a) HealthDeregisterAll" and
    k3: "clock w3 = clock ?w2 + t1"
    using stop_health_checker_returns [OF t1, of ?w2] by auto
  obtain w4 where
    s4: "close_database env a w3 = Returns () w4" and
    c4: "calls w4 = calls w3 @ step_calls (db a) DBClose" and
    k4: "clock w4 = clock w3 + t2"
    using close_database_returns [OF t2, of w3] by auto
  obtain w5 where
    s5: "close_redis env a w4 = Returns () w5" and
    c5: "calls w5 = calls w4 @ step_calls (redis a) RedisClose" and
    k5: "clock w5 = clock w4 + t3"
    using close_redis_returns [OF t3, of w4] by auto
  obtain w6 where
    s6: "stop_upgrader env a w5 = Returns () w6" and
    c6: "calls w6 = calls w5 @ step_calls (upgrader a) UpgraderStop" and
    k6: "clock w6 = clock w5 + t4"
    using stop_upgrader_returns [OF t4, of w5] by auto
  have "Shutdown env a w = Returns None (logger_Info ''Application shutdown complete'' w6)"
    using srv s1 s3 s4 s5 s6 by (simp add: Shutdown_def Let_def shutdown_budget_def)
  moreover have "calls (logger_Info ''Application shutdown complete'' w6) = calls w @ shutdown_calls a"
    by (simp add: c6 c5 c4 c3 c2' c2 shutdown_calls_def)
  moreover have "clock (logger_Info ''Application shutdown complete'' w6)
                   = clock w + drain_time env (shutdown_budget a) + t"
    by (simp add: k6 k5 k4 k3 k2' k2 t)
  ultimately show ?thesis by blast
qed

lemma step_time_None: "step_time h r = None \<longleftrightarrow> h \<noteq> None \<and> r = Never"
  by (simp add: step_time_def split: option.splits reply.splits)

lemma step_calls_Some: "h \<noteq> None \<Longrightarrow> step_calls h c = [c]"
  by (auto simp: step_calls_def)

lemma Shutdown_blocks:
  assumes srv: "server a = Some srv" and tt: "tail_time env a = None"
  shows "\<exists>w' cs. Shutdown env a w = Blocks w' \<and> calls w' = calls w @ cs
           \<and> prefix cs (shutdown_calls a)"
proof -
  let ?w1 = "logger_Info ''Shutting down application...'' w"
  obtain err w2 where
    s1: "server_Shutdown env (clock ?w1 + shutdown_budget a) ?w1 = Returns err w2" and
    c2: "calls w2 = calls w @ [ServerShutdown (shutdown_budget a)]"
    using server_Shutdown_returns [of env ?w1 "shutdown_budget a"] by auto
  let ?w2 = "case err of Some e \<Rightarrow> logger_Error ''Server shutdown error'' e w2 | None \<Rightarrow> w2"
  have c2': "calls ?w2 = calls w2"
    by (simp split: option.splits)
  show ?thesis
  proof (cases "step_time (health a) (DeregisterAll_reply env)")
    case None
    then have "Shutdown env a w = Blocks (do_call HealthDeregisterAll ?w2)"
      using srv s1 stop_health_checker_blocks [of a env ?w2]
      by (simp add: Shutdown_def Let_def shutdown_budget_def)
    moreover have "calls (do_call HealthDeregisterAll ?w2)
        = calls w @ [ServerShutdown (shutdown_budget a), HealthDeregisterAll]"
      by (simp add: c2' c2)
    moreover have "prefix [ServerShutdown (shutdown_budget a), HealthDeregisterAll]
                     (shutdown_calls a)"
      using None by (simp add: shutdown_calls_def step_time_None step_calls_Some)
    ultimately show ?thesis by blast
  next
    case t1: (Some t1)
    then obtain w3 where s3: "stop_health_checker env a ?w2 = Returns () w3"
      and c3: "calls w3 = calls ?w2 @ step_calls (health a) HealthDeregisterAll"
      using stop_health_checker_returns [of a env t1 ?w2] by auto
    show ?thesis
    proof (cases "step_time (db a) (db_Close_reply env)")
      case None
      then have "Shutdown env a w = Blocks (do_call DBClose w3)"
        using srv s1 s3 close_database_blocks [of a env w3]
        by (simp add: Shutdown_def Let_def shutdown_budget_def)
      moreover have "calls (do_call DBClose w3)
          = calls w @ ([ServerShutdown (shutdown_budget a)]
              @ step_calls (health a) HealthDeregisterAll @ [DBClose])"
        by (simp add: c3 c2' c2)
      moreover have "prefix ([ServerShutdown (shutdown_budget a)]
              @ step_calls (health a) HealthDeregisterAll @ [DBClose]) (shutdown_calls a)"
        using None by (simp add: shutdown_calls_def step_time_None step_calls_Some)
      ultimately show ?thesis by blast
    next
      case t2: (Some t2)
      then obtain w4 where s4: "close_database env a w3 = Returns () w4"
        and c4: "calls w4 = calls w3 @ step_calls (db a) DBClose"
        using close_database_returns [of a env t2 w3] by auto
      show ?thesis
      proof (cases "step_time (redis a) (redis_Close_reply env)")
        case None
        then have "Shutdown env a w = Blocks (do_call RedisClose w4)"
          using srv s1 s3 s4 close_redis_blocks [of a env w4]
          by (simp add: Shutdown_def Let_def shutdown_budget_def)
        moreover have "calls (do_call RedisClose w4)
            = calls w @ ([ServerShutdown (shutdown_budget a)]
                @ step_calls (health a) HealthDeregisterAll @ step_calls (db a) DBClose
                @ [RedisClose])"
          by (simp add: c4 c3 c2' c2)
        moreover have "prefix ([ServerShutdown (shutdown_budget a)]
                @ step_calls (health a) HealthDeregisterAll @ step_calls (db a) DBClose
                @ [RedisClose]) (shutdown_calls a)"
          using None by (simp add: shutdown_calls_def step_time_None step_calls_Some)
        ultimately show ?thesis by blast
      next
        case t3: (Some t3)
        then obtain w5 where s5: "close_redis env a w4 = Returns () w5"
          and c5: "calls w5 = calls w4 @ step_calls (redis a) RedisClose"
          using close_redis_returns [of a env t3 w4] by auto
        have t4: "step_time (upgrader a) (Stop_reply env) = None"
          using tt t1 t2 t3 by (simp add: tail_time_def plus_time_None)
        then have "Shutdown env a w = Blocks (do_call UpgraderStop w5)"
          using srv s1 s3 s4 s5 stop_upgrader_blocks [of a env w5]
          by (simp add: Shutdown_def Let_def shutdown_budget_def)
        moreover have "calls (do_call UpgraderStop w5) = calls w @ shutdown_calls a"
          using t4 by (simp add: c5 c4 c3 c2' c2 shutdown_calls_def step_time_None step_calls_Some)
        ultimately show ?thesis by blast
      qed
    qed
  qed
qed

lemma Shutdown_crashes:
  "server a = None \<Longrightarrow>
     Shutdown env a w = Crashes NilDereference (logger_Info ''Shutting down application...'' w)"
  by (simp add: Shutdown_def Let_def)

lemma drain_time_le: "drain_time env b \<le> b"
  by (simp add: drain_time_def split: reply.splits)

lemma app_ok_fields:
  "server app_ok \<noteq> None" "health app_ok = Some HealthHandle" "db app_ok = Some DBHandle"
  "redis app_ok = Some RedisHandle" "upgrader app_ok = Some UpgraderHandle"
  "config app_ok = defaults"
  by (simp_all add: app_ok_def setupServer_def)

lemma shutdown_budget_app_ok: "shutdown_budget app_ok = 30000000000"
  by (simp add: shutdown_budget_def app_ok_fields defaults_def Second_def)

lemma tail_time_env_failing: "tail_time env_failing app_ok = Some 4"
  by (simp add: tail_time_def step_time_def app_ok_fields env_failing_def env_ok_def)

lemma shutdown_calls_app_ok:
  "shutdown_calls app_ok =
     [ServerShutdown 30000000000, HealthDeregisterAll, DBClose, RedisClose, UpgraderStop]"
  by (simp add: shutdown_calls_def step_calls_def app_ok_fields shutdown_budget_app_ok)

section \<open>Lemmas about startup\<close>

lemma health_RegisterCheck_returns:
  assumes "health a = Some h"
  shows "\<exists>r w' c. health_RegisterCheck env a n d p w = Returns r w'
           \<and> calls w' = calls w @ [c] \<and> is_check_call c \<and> (check_failed c \<longleftrightarrow> r \<noteq> None)"
  using assms by (cases "RegisterCheck_result env (registry w) n")
    (simp_all add: health_RegisterCheck_def)

lemma externalChecks_returns:
  assumes "health a = Some h"
  shows "\<exists>r w' cs. externalChecks env a urls w = Returns r w'
           \<and> calls w' = calls w @ cs \<and> list_all is_check_call cs
           \<and> (list_ex check_failed cs \<longleftrightarrow> r \<noteq> None)"
proof (induction urls arbitrary: w)
  case Nil
  then show ?case by simp
next
  case (Cons url urls)
  let ?t = "HealthConfig.Timeout (Health (config a))"
  let ?res = "NewHTTPCheck_result env (''http_'' @ url) url ?t"
  let ?w1 = "do_call (NewHTTPCheck (''http_'' @ url) url ?t ?res) w"
  show ?case
  proof (cases ?res)
    case (Some e)
    then have "externalChecks env a (url # urls) w
        = Returns (Some (Wrap (''failed to create HTTP health check for '' @ url) e)) ?w1"
      by (simp add: Let_def)
    moreover have "calls ?w1 = calls w @ [NewHTTPCheck (''http_'' @ url) url ?t ?res]"
      by simp
    ultimately show ?thesis using Some
      by (intro exI [of _ "[NewHTTPCheck (''http_'' @ url) url ?t ?res]"] exI conjI) auto
  next
    case None
    obtain r w2 c where
      reg: "health_RegisterCheck env a (''http_'' @ url) (5 * Second)
              (CheckInterval (Health (config a))) ?w1 = Returns r w2" and
      c2: "calls w2 = calls ?w1 @ [c]" and ic: "is_check_call c" and
      cf: "check_failed c \<longleftrightarrow> r \<noteq> None"
      using health_RegisterCheck_returns [OF assms] by blast
    show ?thesis
    proof (cases r)
      case (Some e)
      then have "externalChecks env a (url # urls) w
          = Returns (Some (Wrap (''failed to register HTTP health check for '' @ url) e)) w2"
        using None reg by (simp add: Let_def)
      moreover have "calls w2 = calls w @ [NewHTTPCheck (''http_'' @ url) url ?t ?res, c]"
        using c2 by simp
      ultimately show ?thesis using Some ic cf None
        by (intro exI [of _ "[NewHTTPCheck (''http_'' @ url) url ?t ?res, c]"] exI conjI) auto
    next
      case rn: None
      obtain r' w' cs where
        rest: "externalChecks env a urls w2 = Returns r' w'" and
        c3: "calls w' = calls w2 @ cs" and ics: "list_all is_check_call cs" and
        cfs: "list_ex check_failed cs \<longleftrightarrow> r' \<noteq> None"
        using Cons.IH [of w2] by blast
      have "externalChecks env a (url # urls) w = Returns r' w'"
        using None reg rn rest by (simp add: Let_def)
      moreover have "calls w' = calls w @ (NewHTTPCheck (''http_'' @ url) url ?t ?res # c # cs)"
        using c3 c2 by simp
      ultimately show ?thesis using ics cfs ic cf rn None
        by (intro exI [of _ "NewHTTPCheck (''http_'' @ url) url ?t ?res # c # cs"] exI conjI) auto
    qed
  qed
qed

lemma guarded_RegisterCheck_returns:
  assumes "health a = Some h"
  shows "\<exists>r w' cs. (if g then health_RegisterCheck env a n d p w else Returns None w)
             = Returns r w'
           \<and> calls w' = calls w @ cs \<and> list_all is_check_call cs
           \<and> (list_ex check_failed cs \<longleftrightarrow> r \<noteq> None)"
proof (cases g)
  case True
  obtain r w' c where reg: "health_RegisterCheck env a n d p w = Returns r w'"
    "calls w' = calls w @ [c]" "is_check_call c" "check_failed c \<longleftrightarrow> r \<noteq> None"
    using health_RegisterCheck_returns [OF assms] by blast
  have "list_all is_check_call [c]" "list_ex check_failed [c] \<longleftrightarrow> r \<noteq> None"
    using reg by simp_all
  with True reg show ?thesis by (simp only: if_True) blast
next
  case False
  have "calls w = calls w @ []" "list_all is_check_call []"
    "list_ex check_failed [] \<longleftrightarrow> (None :: error option) \<noteq> None"
    by simp_all
  with False show ?thesis by (simp only: if_False) blast
qed

lemma setupHealthChecks_returns:
  assumes h: "health a = Some h"
  shows "\<exists>r w' cs. setupHealthChecks env a w = Returns r w'
           \<and> calls w' = calls w @ cs \<and> list_all is_check_call cs
           \<and> (list_ex check_failed cs \<longleftrightarrow> r \<noteq> None)"
proof (cases "HealthConfig.Enabled (Health (config a))")
  case False
  have "calls w = calls w @ []" "list_all is_check_call []"
    "list_ex check_failed [] \<longleftrightarrow> (None :: error option) \<noteq> None"
    by simp_all
  moreover have "setupHealthChecks env a w = Returns None w"
    using False by (simp add: setupHealthChecks_def)
  ultimately show ?thesis by blast
next
  case True
  let ?p = "CheckInterval (Health (config a))"
  let ?m1 = "if DatabaseCheck (Health (config a)) \<and> db a \<noteq> None
             then health_RegisterCheck env a ''database'' (2 * Second) ?p w
             else Returns None w"
  obtain r1 w1 cs1 where
    m1: "?m1 = Returns r1 w1" and c1: "calls w1 = calls w @ cs1" and
    i1: "list_all is_check_call cs1" and f1: "list_ex check_failed cs1 \<longleftrightarrow> r1 \<noteq> None"
    using guarded_RegisterCheck_returns [OF h] by blast
  show ?thesis
  proof (cases r1)
    case (Some e)
    then have "setupHealthChecks env a w
        = Returns (Some (Wrap ''failed to register database health check'' e)) w1"
      using True m1 by (simp add: setupHealthChecks_def)
    moreover have "list_ex check_failed cs1
        \<longleftrightarrow> Some (Wrap ''failed to register database health check'' e) \<noteq> None"
      using f1 Some by simp
    ultimately show ?thesis using c1 i1 by blast
  next
    case r1n: None
    let ?m2 = "if RedisCheck (Health (config a)) \<and> redis a \<noteq> None
               then health_RegisterCheck env a ''redis'' (2 * Second) ?p w1
               else Returns None w1"
    obtain r2 w2 cs2 where
      m2: "?m2 = Returns r2 w2" and c2: "calls w2 = calls w1 @ cs2" and
      i2: "list_all is_check_call cs2" and f2: "list_ex check_failed cs2 \<longleftrightarrow> r2 \<noteq> None"
      using guarded_RegisterCheck_returns [OF h] by blast
    have c12: "calls w2 = calls w @ (cs1 @ cs2)" and i12: "list_all is_check_call (cs1 @ cs2)"
      and f12: "list_ex check_failed (cs1 @ cs2) \<longleftrightarrow> r2 \<noteq> None"
      using c1 c2 i1 i2 f1 f2 r1n by simp_all
    show ?thesis
    proof (cases r2)
      case (Some e)
      then have "setupHealthChecks env a w
          = Returns (Some (Wrap ''failed to register redis health check'' e)) w2"
        using True m1 r1n m2 by (simp add: setupHealthChecks_def)
      moreover have "list_ex check_failed (cs1 @ cs2)
          \<longleftrightarrow> Some (Wrap ''failed to register redis health check'' e) \<noteq> None"
        using f12 Some by simp
      ultimately show ?thesis using c12 i12 by blast
    next
      case r2n: None
      obtain r3 w3 cs3 where
        m3: "externalChecks env a (ExternalChecks (Health (config a))) w2 = Returns r3 w3" and
        c3: "calls w3 = calls w2 @ cs3" and
        i3: "list_all is_check_call cs3" and f3: "list_ex check_failed cs3 \<longleftrightarrow> r3 \<noteq> None"
        using externalChecks_returns [OF h] by blast
      have "setupHealthChecks env a w = Returns r3 w3"
        using True m1 r1n m2 r2n m3 by (simp add: setupHealthChecks_def)
      moreover have "calls w3 = calls w @ (cs1 @ cs2 @ cs3)"
        "list_all is_check_call (cs1 @ cs2 @ cs3)"
        "list_ex check_failed (cs1 @ cs2 @ cs3) \<longleftrightarrow> r3 \<noteq> None"
        using c12 c3 i12 i3 f12 f3 r2n by simp_all
      ultimately show ?thesis by blast
    qed
  qed
qed

lemma New_setup_outcome:
  "(\<exists>e w' cs. New_setup env cfg d r u w
        = Returns (None, Some (Wrap ''failed to setup health checks'' e)) w'
      \<and> calls w' = calls w @ cs \<and> list_all is_check_call cs \<and> list_ex check_failed cs)
   \<or> (\<exists>a w' cs. New_setup env cfg d r u w = Returns (Some a, None) w'
      \<and> calls w' = calls w @ cs \<and> list_all is_check_call cs \<and> \<not> list_ex check_failed cs
      \<and> server a \<noteq> None \<and> health a \<noteq> None \<and> config a = cfg
      \<and> db a = d \<and> redis a = r \<and> upgrader a = u)"
proof -
  let ?a0 = "\<lparr> config = cfg, logger = LoggerHandle, router = None, server = None,
               health = Some HealthHandle, db = d, redis = r, upgrader = u \<rparr>"
  obtain a1 w1 where
    r1: "setupRouter ?a0 w = Returns (None, a1) w1" and c1: "calls w1 = calls w" and
    a1: "health a1 = Some HealthHandle" "config a1 = cfg" "db a1 = d" "redis a1 = r"
        "upgrader a1 = u"
    by (simp add: setupRouter_def Let_def)
  let ?a2 = "snd (setupServer a1)"
  have a2: "fst (setupServer a1) = None" "health ?a2 = Some HealthHandle" "config ?a2 = cfg"
    "db ?a2 = d" "redis ?a2 = r" "upgrader ?a2 = u" "server ?a2 \<noteq> None"
    using a1 by (simp_all add: setupServer_def)
  obtain r3 w3 cs where
    r3: "setupHealthChecks env ?a2 w1 = Returns r3 w3" and c3: "calls w3 = calls w1 @ cs" and
    i3: "list_all is_check_call cs" and f3: "list_ex check_failed cs \<longleftrightarrow> r3 \<noteq> None"
    using setupHealthChecks_returns [OF a2(2)] by blast
  show ?thesis
  proof (cases r3)
    case None
    then have "New_setup env cfg d r u w = Returns (Some ?a2, None) w3"
      using r1 a2(1) r3 by (simp add: New_setup_def)
    then show ?thesis using c3 c1 i3 f3 None a2 by auto
  next
    case (Some e)
    then have "New_setup env cfg d r u w
        = Returns (None, Some (Wrap ''failed to setup health checks'' e)) w3"
      using r1 a2(1) r3 by (simp add: New_setup_def)
    then show ?thesis using c3 c1 i3 f3 Some by auto
  qed
qed

lemma Load_calls: "calls (snd (Load env w)) = calls w"
  by (simp add: Load_def Let_def split: option.splits)

lemma Get_after_Load:
  "fst (Load env w) = None \<Longrightarrow>
     Get (snd (Load env w)) = Returns (fst (unmarshal_result env)) (snd (Load env w))"
  by (simp add: Load_def Get_def Let_def split: option.splits)

lemma record_logs_simps [simp]:
  "logs (w\<lparr>registry := r\<rparr>) = logs w" "logs (advance t w) = logs w"
  by (simp_all add: advance_def)

lemma health_RegisterCheck_logs:
  "logs (final (health_RegisterCheck env a n d p w)) = logs w"
  by (simp add: health_RegisterCheck_def split: option.splits)

lemma externalChecks_logs: "logs (final (externalChecks env a urls w)) = logs w"
proof (induction urls arbitrary: w)
  case Nil
  then show ?case by simp
next
  case (Cons url urls)
  let ?t = "HealthConfig.Timeout (Health (config a))"
  let ?w1 = "do_call (NewHTTPCheck (''http_'' @ url) url ?t
                        (NewHTTPCheck_result env (''http_'' @ url) url ?t)) w"
  let ?reg = "health_RegisterCheck env a (''http_'' @ url) (5 * Second)
                (CheckInterval (Health (config a))) ?w1"
  have reg: "logs (final ?reg) = logs w"
    using health_RegisterCheck_logs [of env a _ _ _ ?w1] by simp
  show ?case
  proof (cases "NewHTTPCheck_result env (''http_'' @ url) url ?t")
    case (Some e)
    then show ?thesis by (simp add: Let_def)
  next
    case None
    show ?thesis
    proof (cases ?reg)
      case (Returns r w2)
      then have "logs w2 = logs w" using reg by simp
      then show ?thesis using None Returns Cons.IH [of w2]
        by (cases r) (simp_all add: Let_def)
    next
      case (Blocks w2)
      then show ?thesis using None reg by (simp add: Let_def)
    next
      case (Crashes c w2)
      then show ?thesis using None reg by (simp add: Let_def)
    qed
  qed
qed

lemma setupHealthChecks_logs:
  assumes "setupHealthChecks env a w = Returns r w'"
  shows "logs w' = logs w"
proof (cases "HealthConfig.Enabled (Health (config a))")
  case False
  then show ?thesis using assms by (simp add: setupHealthChecks_def)
next
  case True
  let ?p = "CheckInterval (Health (config a))"
  let ?m1 = "if DatabaseCheck (Health (config a)) \<and> db a \<noteq> None
             then health_RegisterCheck env a ''database'' (2 * Second) ?p w
             else Returns None w"
  have l1: "logs (final ?m1) = logs w"
    by (simp add: health_RegisterCheck_logs)
  show ?thesis
  proof (cases ?m1)
    case (Returns r1 w1)
    then have lw1: "logs w1 = logs w" using l1 by simp
    let ?m2 = "if RedisCheck (Health (config a)) \<and> redis a \<noteq> None
               then health_RegisterCheck env a ''redis'' (2 * Second) ?p w1
               else Returns None w1"
    have l2: "logs (final ?m2) = logs w1"
      by (simp add: health_RegisterCheck_logs)
    show ?thesis
    proof (cases r1)
      case (Some e)
      then show ?thesis using assms True Returns lw1 by (simp add: setupHealthChecks_def)
    next
      case r1n: None
      show ?thesis
      proof (cases ?m2)
        case m2: (Returns r2 w2)
        then have lw2: "logs w2 = logs w" using l2 lw1 by simp
        show ?thesis
        proof (cases r2)
          case (Some e)
          then show ?thesis using assms True Returns r1n m2 lw2
            by (simp add: setupHealthChecks_def)
        next
          case None
          then have "externalChecks env a (ExternalChecks (Health (config a))) w2
                       = Returns r w'"
            using assms True Returns r1n m2 by (simp add: setupHealthChecks_def)
          then show ?thesis
            using externalChecks_logs [of env a "ExternalChecks (Health (config a))" w2] lw2
            by simp
        qed
      next
        case (Blocks w2)
        then show ?thesis using assms True Returns r1n by (simp add: setupHealthChecks_def)
      next
        case (Crashes c w2)
        then show ?thesis using assms True Returns r1n by (simp add: setupHealthChecks_def)
      qed
    qed
  next
    case (Blocks w1)
    then show ?thesis using assms True by (simp add: setupHealthChecks_def)
  next
    case (Crashes c w1)
    then show ?thesis using assms True by (simp add: setupHealthChecks_def)
  qed
qed

lemma New_setup_logs:
  assumes "New_setup env cfg d r u w = Returns res w'"
  shows "\<exists>ls. logs w' = logs w @ ls \<and> \<not> list_ex is_error_log ls"
proof -
  let ?a0 = "\<lparr> config = cfg, logger = LoggerHandle, router = None, server = None,
               health = Some HealthHandle, db = d, redis = r, upgrader = u \<rparr>"
  obtain a1 w1 where
    r1: "setupRouter ?a0 w = Returns (None, a1) w1" and
    l1: "\<exists>ls. logs w1 = logs w @ ls \<and> \<not> list_ex is_error_log ls"
    by (simp add: setupRouter_def Let_def logger_Info_def)
  have a2: "fst (setupServer a1) = None"
    by (simp add: setupServer_def)
  show ?thesis
  proof (cases "setupHealthChecks env (snd (setupServer a1)) w1")
    case (Returns r3 w3)
    then have "logs w3 = logs w1" by (rule setupHealthChecks_logs)
    moreover have "w' = w3"
      using assms r1 a2 Returns by (cases r3) (simp_all add: New_setup_def)
    ultimately show ?thesis using l1 by simp
  next
    case (Blocks w3)
    then show ?thesis using assms r1 a2 by (simp add: New_setup_def)
  next
    case (Crashes c w3)
    then show ?thesis using assms r1 a2 by (simp add: New_setup_def)
  qed
qed

lemma Load_logs:
  "\<exists>ls. logs (snd (Load env w)) = logs w @ ls \<and> \<not> list_ex is_error_log ls"
  by (simp add: Load_def Let_def log_Printf_def split: option.splits)

lemma New_reaches_setup:
  "(\<exists>e w' cs. New env w = Returns (None, Some e) w'
      \<and> calls w' = calls w @ cs \<and> \<not> list_ex is_check_call cs)
   \<or> (\<exists>w5. New env w = New_setup env (fst (unmarshal_result env))
                 (fst (database_New_result env (Database (fst (unmarshal_result env)))))
                 (fst (redis_New_result env (Redis (fst (unmarshal_result env)))))
                 (fst (tableflip_New_result env)) w5
      \<and> calls w5 = calls w @ [LoggerNew, DatabaseNew, RedisNew, TableflipNew, GosundheitNew]
      \<and> logs w5 = logs (snd (Load env w)))"
  (is "?early \<or> ?reached")
proof (cases "fst (Load env w)")
  case (Some e)
  then have "New env w = Returns (None, Some (Wrap ''failed to load config'' e)) (snd (Load env w))"
    by (simp add: New_def)
  moreover have "calls (snd (Load env w)) = calls w @ []" "\<not> list_ex is_check_call []"
    by (simp_all add: Load_calls)
  ultimately have ?early by blast
  then show ?thesis ..
next
  case None
  let ?cfg = "fst (unmarshal_result env)"
  let ?w1 = "snd (Load env w)"
  note get = Get_after_Load [OF None]
  show ?thesis
  proof (cases "logger_New_result env (Logging ?cfg)")
    case (Some e)
    then have "New env w = Returns (None, Some (Wrap ''failed to initialize logger'' e))
                             (do_call LoggerNew ?w1)"
      using None get by (simp add: New_def Let_def)
    moreover have "calls (do_call LoggerNew ?w1) = calls w @ [LoggerNew]"
      "\<not> list_ex is_check_call [LoggerNew]"
      by (simp_all add: Load_calls)
    ultimately have ?early by blast
    then show ?thesis ..
  next
    case lg: None
    show ?thesis
    proof (cases "snd (database_New_result env (Database ?cfg))")
      case (Some e)
      let ?w = "logger_Error ''Failed to initialize database'' e
                  (do_call DatabaseNew (do_call LoggerNew ?w1))"
      have "New env w = Returns (None, Some (Wrap ''failed to initialize database'' e)) ?w"
        using None get lg Some by (simp add: New_def Let_def)
      moreover have "calls ?w = calls w @ [LoggerNew, DatabaseNew]"
        "\<not> list_ex is_check_call [LoggerNew, DatabaseNew]"
        by (simp_all add: Load_calls)
      ultimately have ?early by blast
      then show ?thesis ..
    next
      case dbn: None
      show ?thesis
      proof (cases "snd (redis_New_result env (Redis ?cfg))")
        case (Some e)
        let ?w = "logger_Error ''Failed to initialize Redis'' e
                    (do_call RedisNew (do_call DatabaseNew (do_call LoggerNew ?w1)))"
        have "New env w = Returns (None, Some (Wrap ''failed to initialize Redis'' e)) ?w"
          using None get lg dbn Some by (simp add: New_def Let_def)
        moreover have "calls ?w = calls w @ [LoggerNew, DatabaseNew, RedisNew]"
          "\<not> list_ex is_check_call [LoggerNew, DatabaseNew, RedisNew]"
          by (simp_all add: Load_calls)
        ultimately have ?early by blast
        then show ?thesis ..
      next
        case rdn: None
        show ?thesis
        proof (cases "snd (tableflip_New_result env)")
          case (Some e)
          let ?w = "logger_Error ''Failed to create tableflip upgrader'' e
                      (do_call TableflipNew (do_call RedisNew (do_call DatabaseNew
                         (do_call LoggerNew ?w1))))"
          have "New env w
              = Returns (None, Some (Wrap ''failed to create tableflip upgrader'' e)) ?w"
            using None get lg dbn rdn Some by (simp add: New_def Let_def)
          moreover have "calls ?w = calls w @ [LoggerNew, DatabaseNew, RedisNew, TableflipNew]"
            "\<not> list_ex is_check_call [LoggerNew, DatabaseNew, RedisNew, TableflipNew]"
            by (simp_all add: Load_calls)
          ultimately have ?early by blast
          then show ?thesis ..
        next
          case tfn: None
          let ?w5 = "(do_call GosundheitNew (do_call TableflipNew (do_call RedisNew
                       (do_call DatabaseNew (do_call LoggerNew ?w1)))))\<lparr>registry := []\<rparr>"
          let ?d = "fst (database_New_result env (Database ?cfg))"
          let ?r = "fst (redis_New_result env (Redis ?cfg))"
          let ?u = "fst (tableflip_New_result env)"
          have new: "New env w = New_setup env ?cfg ?d ?r ?u ?w5"
            using None get lg dbn rdn tfn by (simp add: New_def Let_def)
          have c5: "calls ?w5
              = calls w @ [LoggerNew, DatabaseNew, RedisNew, TableflipNew, GosundheitNew]"
            by (simp add: Load_calls)
          have "logs ?w5 = logs ?w1"
            by simp
          with new c5 have ?reached by blast
          then show ?thesis ..
        qed
      qed
    qed
  qed
qed

lemma check_failed_is_check_call: "check_failed c \<Longrightarrow> is_check_call c"
  by (cases c) simp_all

lemma list_ex_check_failed: "list_ex check_failed cs \<Longrightarrow> list_ex is_check_call cs"
  unfolding list_ex_iff using check_failed_is_check_call by blast

lemma New_outcome:
  "(\<exists>e w' cs. New env w = Returns (None, Some e) w'
      \<and> calls w' = calls w @ cs \<and> \<not> list_ex is_check_call cs)
   \<or> (\<exists>e w' cs ls. New env w = Returns (None, Some (Wrap ''failed to setup health checks'' e)) w'
      \<and> calls w' = calls w @ [LoggerNew, DatabaseNew, RedisNew, TableflipNew, GosundheitNew] @ cs
      \<and> list_all is_check_call cs \<and> list_ex check_failed cs
      \<and> logs w' = logs w @ ls \<and> \<not> list_ex is_error_log ls)
   \<or> (\<exists>a w' cs. New env w = Returns (Some a, None) w'
      \<and> calls w' = calls w @ [LoggerNew, DatabaseNew, RedisNew, TableflipNew, GosundheitNew] @ cs
      \<and> list_all is_check_call cs \<and> \<not> list_ex check_failed cs
      \<and> server a \<noteq> None \<and> health a \<noteq> None
      \<and> config a = fst (unmarshal_result env)
      \<and> upgrader a = fst (tableflip_New_result env))"
  (is "?early \<or> ?checks \<or> ?ok")
proof -
  let ?cfg = "fst (unmarshal_result env)"
  let ?d = "fst (database_New_result env (Database ?cfg))"
  let ?r = "fst (redis_New_result env (Redis ?cfg))"
  let ?u = "fst (tableflip_New_result env)"
  from New_reaches_setup [of env w] show ?thesis
  proof
    assume ?early then show ?thesis ..
  next
    assume "\<exists>w5. New env w = New_setup env ?cfg ?d ?r ?u w5
      \<and> calls w5 = calls w @ [LoggerNew, DatabaseNew, RedisNew, TableflipNew, GosundheitNew]
      \<and> logs w5 = logs (snd (Load env w))"
    then obtain w5 where new: "New env w = New_setup env ?cfg ?d ?r ?u w5"
      and c5: "calls w5 = calls w @ [LoggerNew, DatabaseNew, RedisNew, TableflipNew, GosundheitNew]"
      and l5: "logs w5 = logs (snd (Load env w))"
      by blast
    obtain ls0 where ls0: "logs w5 = logs w @ ls0" "\<not> list_ex is_error_log ls0"
      using Load_logs [of env w] l5 by auto
    from New_setup_outcome [of env ?cfg ?d ?r ?u w5] show ?thesis
    proof
      assume "\<exists>e w' cs. New_setup env ?cfg ?d ?r ?u w5
          = Returns (None, Some (Wrap ''failed to setup health checks'' e)) w'
        \<and> calls w' = calls w5 @ cs \<and> list_all is_check_call cs \<and> list_ex check_failed cs"
      then obtain e w' cs where
        res: "New_setup env ?cfg ?d ?r ?u w5
                = Returns (None, Some (Wrap ''failed to setup health checks'' e)) w'" and
        cs: "calls w' = calls w5 @ cs" "list_all is_check_call cs" "list_ex check_failed cs"
        by blast
      obtain ls1 where ls1: "logs w' = logs w5 @ ls1" "\<not> list_ex is_error_log ls1"
        using New_setup_logs [OF res] by blast
      have "logs w' = logs w @ (ls0 @ ls1)" "\<not> list_ex is_error_log (ls0 @ ls1)"
        using ls0 ls1 by simp_all
      moreover have "calls w'
          = calls w @ [LoggerNew, DatabaseNew, RedisNew, TableflipNew, GosundheitNew] @ cs"
        using cs(1) c5 by simp
      ultimately have ?checks using res new cs(2,3) by metis
      then show ?thesis by blast
    next
      assume "\<exists>a w' cs. New_setup env ?cfg ?d ?r ?u w5 = Returns (Some a, None) w'
        \<and> calls w' = calls w5 @ cs \<and> list_all is_check_call cs
        \<and> \<not> list_ex check_failed cs
        \<and> server a \<noteq> None \<and> health a \<noteq> None \<and> config a = ?cfg
        \<and> db a = ?d \<and> redis a = ?r \<and> upgrader a = ?u"
      then have ?ok unfolding new c5 by auto
      then show ?thesis by blast
    qed
  qed
qed

lemma health_RegisterCheck_call:
  assumes "health a = Some h"
  shows "\<exists>r w'. health_RegisterCheck env a n d p w = Returns r w'
           \<and> calls w' = calls w @ [RegisterCheck n d p r]"
  using assms by (cases "RegisterCheck_result env (registry w) n")
    (simp_all add: health_RegisterCheck_def)

lemma externalChecks_failure:
  assumes h: "health a = Some h"
  shows "externalChecks env a urls w = Returns (Some e) w' \<Longrightarrow>
         \<exists>pre c e0. calls w' = calls w @ pre @ [c] \<and> \<not> list_ex check_failed pre
           \<and> call_error c = Some e0 \<and> e = Wrap (failure_message c) e0"
proof (induction urls arbitrary: w)
  case Nil
  then show ?case by simp
next
  case (Cons url urls)
  let ?t = "HealthConfig.Timeout (Health (config a))"
  let ?res = "NewHTTPCheck_result env (''http_'' @ url) url ?t"
  let ?c1 = "NewHTTPCheck (''http_'' @ url) url ?t ?res"
  let ?w1 = "do_call ?c1 w"
  show ?case
  proof (cases ?res)
    case (Some e1)
    then have "externalChecks env a (url # urls) w
        = Returns (Some (Wrap (''failed to create HTTP health check for '' @ url) e1)) ?w1"
      by (simp add: Let_def)
    with Cons.prems have e: "e = Wrap (''failed to create HTTP health check for '' @ url) e1"
      and w': "w' = ?w1" by simp_all
    have "calls w' = calls w @ [] @ [?c1]" "\<not> list_ex check_failed []"
      "call_error ?c1 = Some e1" "e = Wrap (failure_message ?c1) e1"
      using w' e Some by simp_all
    then show ?thesis by blast
  next
    case None
    obtain r w2 where
      reg: "health_RegisterCheck env a (''http_'' @ url) (5 * Second)
              (CheckInterval (Health (config a))) ?w1 = Returns r w2" and
      c2: "calls w2 = calls ?w1 @ [RegisterCheck (''http_'' @ url) (5 * Second)
                                     (CheckInterval (Health (config a))) r]"
      using health_RegisterCheck_call [OF h] by blast
    let ?c2 = "RegisterCheck (''http_'' @ url) (5 * Second) (CheckInterval (Health (config a))) r"
    show ?thesis
    proof (cases r)
      case (Some e1)
      then have "externalChecks env a (url # urls) w
          = Returns (Some (Wrap (''failed to register HTTP health check for '' @ url) e1)) w2"
        using None reg by (simp add: Let_def)
      with Cons.prems have e: "e = Wrap (''failed to register HTTP health check for '' @ url) e1"
        and w': "w' = w2" by simp_all
      have "calls w' = calls w @ [?c1] @ [?c2]" "\<not> list_ex check_failed [?c1]"
        "call_error ?c2 = Some e1" "e = Wrap (failure_message ?c2) e1"
        using w' e Some None c2 by simp_all
      then show ?thesis by blast
    next
      case rn: None
      have "externalChecks env a (url # urls) w = externalChecks env a urls w2"
        using None reg rn by (simp add: Let_def)
      with Cons.prems have "externalChecks env a urls w2 = Returns (Some e) w'" by simp
      from Cons.IH [OF this] obtain pre c e0 where
        rest: "calls w' = calls w2 @ pre @ [c]" "\<not> list_ex check_failed pre"
          "call_error c = Some e0" "e = Wrap (failure_message c) e0"
        by blast
      have "calls w' = calls w @ (?c1 # ?c2 # pre) @ [c]"
        "\<not> list_ex check_failed (?c1 # ?c2 # pre)"
        using rest(1,2) c2 None rn by simp_all
      with rest(3,4) show ?thesis by blast
    qed
  qed
qed

lemma guarded_RegisterCheck_call:
  assumes "health a = Some h"
  shows "\<exists>r w' cs. (if g then health_RegisterCheck env a n d p w else Returns None w)
             = Returns r w'
           \<and> calls w' = calls w @ cs
           \<and> (r = None \<longrightarrow> \<not> list_ex check_failed cs)
           \<and> (r \<noteq> None \<longrightarrow> cs = [RegisterCheck n d p r])"
proof (cases g)
  case True
  obtain r w' where reg: "health_RegisterCheck env a n d p w = Returns r w'"
    "calls w' = calls w @ [RegisterCheck n d p r]"
    using health_RegisterCheck_call [OF assms] by blast
  have "r = None \<longrightarrow> \<not> list_ex check_failed [RegisterCheck n d p r]"
    by simp
  with True reg show ?thesis by (simp only: if_True) blast
next
  case False
  have "calls w = calls w @ []" "\<not> list_ex check_failed []"
    by simp_all
  with False show ?thesis by (simp only: if_False) blast
qed

lemma setupHealthChecks_failure:
  assumes h: "health a = Some h" and ret: "setupHealthChecks env a w = Returns (Some e) w'"
  shows "\<exists>pre c e0. calls w' = calls w @ pre @ [c] \<and> \<not> list_ex check_failed pre
           \<and> call_error c = Some e0 \<and> e = Wrap (failure_message c) e0"
proof -
  have en: "HealthConfig.Enabled (Health (config a))"
    using ret by (auto simp: setupHealthChecks_def split: if_splits)
  let ?p = "CheckInterval (Health (config a))"
  let ?m1 = "if DatabaseCheck (Health (config a)) \<and> db a \<noteq> None
             then health_RegisterCheck env a ''database'' (2 * Second) ?p w
             else Returns None w"
  obtain r1 w1 cs1 where
    m1: "?m1 = Returns r1 w1" and c1: "calls w1 = calls w @ cs1" and
    n1: "r1 = None \<longrightarrow> \<not> list_ex check_failed cs1" and
    f1: "r1 \<noteq> None \<longrightarrow> cs1 = [RegisterCheck ''database'' (2 * Second) ?p r1]"
    using guarded_RegisterCheck_call [OF h] by blast
  show ?thesis
  proof (cases r1)
    case (Some e1)
    let ?c = "RegisterCheck ''database'' (2 * Second) ?p (Some e1)"
    have "setupHealthChecks env a w
        = Returns (Some (Wrap ''failed to register database health check'' e1)) w1"
      using en m1 Some by (simp add: setupHealthChecks_def)
    with ret have "e = Wrap ''failed to register database health check'' e1" "w' = w1"
      by simp_all
    then have "calls w' = calls w @ [] @ [?c]" "\<not> list_ex check_failed []"
      "call_error ?c = Some e1" "e = Wrap (failure_message ?c) e1"
      using c1 f1 Some by simp_all
    then show ?thesis by blast
  next
    case r1n: None
    let ?m2 = "if RedisCheck (Health (config a)) \<and> redis a \<noteq> None
               then health_RegisterCheck env a ''redis'' (2 * Second) ?p w1
               else Returns None w1"
    obtain r2 w2 cs2 where
      m2: "?m2 = Returns r2 w2" and c2: "calls w2 = calls w1 @ cs2" and
      n2: "r2 = None \<longrightarrow> \<not> list_ex check_failed cs2" and
      f2: "r2 \<noteq> None \<longrightarrow> cs2 = [RegisterCheck ''redis'' (2 * Second) ?p r2]"
      using guarded_RegisterCheck_call [OF h] by blast
    show ?thesis
    proof (cases r2)
      case (Some e2)
      let ?c = "RegisterCheck ''redis'' (2 * Second) ?p (Some e2)"
      have "setupHealthChecks env a w
          = Returns (Some (Wrap ''failed to register redis health check'' e2)) w2"
        using en m1 r1n m2 Some by (simp add: setupHealthChecks_def)
      with ret have "e = Wrap ''failed to register redis health check'' e2" "w' = w2"
        by simp_all
      then have "calls w' = calls w @ cs1 @ [?c]" "\<not> list_ex check_failed cs1"
        "call_error ?c = Some e2" "e = Wrap (failure_message ?c) e2"
        using c1 c2 f2 n1 r1n Some by simp_all
      then show ?thesis by blast
    next
      case r2n: None
      have "setupHealthChecks env a w
          = externalChecks env a (ExternalChecks (Health (config a))) w2"
        using en m1 r1n m2 r2n by (simp add: setupHealthChecks_def)
      with ret have "externalChecks env a (ExternalChecks (Health (config a))) w2
                       = Returns (Some e) w'" by simp
      from externalChecks_failure [OF h this] obtain pre c e0 where
        rest: "calls w' = calls w2 @ pre @ [c]" "\<not> list_ex check_failed pre"
          "call_error c = Some e0" "e = Wrap (failure_message c) e0"
        by blast
      have "calls w' = calls w @ (cs1 @ cs2 @ pre) @ [c]"
        "\<not> list_ex check_failed (cs1 @ cs2 @ pre)"
        using rest(1,2) c1 c2 n1 n2 r1n r2n by simp_all
      with rest(3,4) show ?thesis by blast
    qed
  qed
qed

lemma New_setup_failure:
  assumes "New_setup env cfg d r u w = Returns (None, Some e') w'"
  shows "\<exists>pre c e0. e' = Wrap ''failed to setup health checks'' (Wrap (failure_message c) e0)
           \<and> calls w' = calls w @ pre @ [c] \<and> \<not> list_ex check_failed pre
           \<and> call_error c = Some e0"
proof -
  let ?a0 = "\<lparr> config = cfg, logger = LoggerHandle, router = None, server = None,
               health = Some HealthHandle, db = d, redis = r, upgrader = u \<rparr>"
  obtain a1 w1 where
    r1: "setupRouter ?a0 w = Returns (None, a1) w1" and c1: "calls w1 = calls w" and
    a1: "health a1 = Some HealthHandle"
    by (simp add: setupRouter_def Let_def)
  let ?a2 = "snd (setupServer a1)"
  have a2: "fst (setupServer a1) = None" "health ?a2 = Some HealthHandle"
    using a1 by (simp_all add: setupServer_def)
  obtain r3 w3 cs where
    r3: "setupHealthChecks env ?a2 w1 = Returns r3 w3"
    using setupHealthChecks_returns [OF a2(2)] by blast
  show ?thesis
  proof (cases r3)
    case None
    then have "New_setup env cfg d r u w = Returns (Some ?a2, None) w3"
      using r1 a2(1) r3 by (simp add: New_setup_def)
    with assms show ?thesis by simp
  next
    case (Some e)
    then have "New_setup env cfg d r u w
        = Returns (None, Some (Wrap ''failed to setup health checks'' e)) w3"
      using r1 a2(1) r3 by (simp add: New_setup_def)
    with assms have e': "e' = Wrap ''failed to setup health checks'' e" and w': "w' = w3"
      by simp_all
    from setupHealthChecks_failure [OF a2(2)] r3 Some obtain pre c e0 where
      "calls w3 = calls w1 @ pre @ [c]" "\<not> list_ex check_failed pre"
      "call_error c = Some e0" "e = Wrap (failure_message c) e0"
      by blast
    then show ?thesis using e' w' c1 by auto
  qed
qed




section \<open>The concrete worlds, evaluated\<close>

lemma validate_defaults: "validate defaults = None"
  by (simp add: validate_def defaults_def)

lemma env_ok_fields:
  "load_defaults_result env_ok = None"
  "load_config_file_result env_ok = (\<lambda>path. None)"
  "load_env_vars_result env_ok = None"
  "unmarshal_result env_ok = (defaults, None)"
  "logger_New_result env_ok = (\<lambda>c. None)"
  "database_New_result env_ok = (\<lambda>c. (Some DBHandle, None))"
  "redis_New_result env_ok = (\<lambda>c. (Some RedisHandle, None))"
  "tableflip_New_result env_ok = (Some UpgraderHandle, None)"
  "NewHTTPCheck_result env_ok = (\<lambda>name url t. None)"
  "RegisterCheck_result env_ok = (\<lambda>reg name. None)"
  "Results_result env_ok = (\<lambda>reg. (map (\<lambda>name. (name, True)) reg, True))"
  "DeregisterAll_reply env_ok = After 1 ()"
  "db_Ping_result env_ok = None"
  "db_Close_reply env_ok = After 1 None"
  "redis_Ping_result env_ok = None"
  "redis_Close_reply env_ok = After 1 None"
  "Listen_result env_ok = (\<lambda>network addr. (Some (Listener network addr), None))"
  "Ready_result env_ok = None"
  "Stop_reply env_ok = After 1 ()"
  "select_reply env_ok = After 5 (SignalReceived ''terminated'')"
  "drain_reply env_ok = After 2 None"
  by (simp_all add: env_ok_def)

lemma Load_env_ok: "Load env_ok world0 = (None, world0\<lparr>C := Some defaults\<rparr>)"
  by (simp add: Load_def env_ok_fields validate_defaults)

lemma listen_addr_defaults: "listen_addr defaults = ''0.0.0.0:8080''"
  by (simp add: listen_addr_def defaults_def itoa_def utoa_digit utoa_more)

lemma defaults_Health [simp]:
  "HealthConfig.Enabled (Health defaults)" "DatabaseCheck (Health defaults)"
  "RedisCheck (Health defaults)" "ExternalChecks (Health defaults) = []"
  "CheckInterval (Health defaults) = 30 * Second"
  "\<not> RateLimitConfig.Enabled (RateLimit (HTTP defaults))"
  "\<not> TLSConfig.Enabled (TLS (HTTP defaults))"
  by (simp_all add: defaults_def)

lemma New_setup_env_ok:
  "RegisterCheck_result env = (\<lambda>reg name. None) \<Longrightarrow>
   New_setup env defaults (Some DBHandle) (Some RedisHandle) (Some UpgraderHandle)
     \<lparr> clock = 0, calls = [LoggerNew, DatabaseNew, RedisNew, TableflipNew, GosundheitNew],
       logs = [], C = Some defaults, registry = [] \<rparr>
   = Returns (Some app_ok, None) world_started"
  by (simp add: New_setup_def setupRouter_def Let_def app_ok_def setupHealthChecks_def
        health_RegisterCheck_def setupServer_def do_call_def world_started_def)

lemma New_env_ok: "New env_ok world0 = Returns (Some app_ok, None) world_started"
proof -
  have "New env_ok world0
      = New_setup env_ok defaults (Some DBHandle) (Some RedisHandle) (Some UpgraderHandle)
          \<lparr> clock = 0, calls = [LoggerNew, DatabaseNew, RedisNew, TableflipNew, GosundheitNew],
            logs = [], C = Some defaults, registry = [] \<rparr>"
    by (simp add: New_def Load_env_ok Get_def Let_def env_ok_fields)
       (simp add: do_call_def world0_def)
  also have "\<dots> = Returns (Some app_ok, None) world_started"
    by (rule New_setup_env_ok) (simp add: env_ok_fields)
  finally show ?thesis .
qed





lemma env_register_fails_fields:
  "load_defaults_result env_register_fails = None"
  "load_config_file_result env_register_fails = (\<lambda>path. None)"
  "load_env_vars_result env_register_fails = None"
  "unmarshal_result env_register_fails = (defaults, None)"
  "logger_New_result env_register_fails = (\<lambda>c. None)"
  "database_New_result env_register_fails = (\<lambda>c. (Some DBHandle, None))"
  "redis_New_result env_register_fails = (\<lambda>c. (Some RedisHandle, None))"
  "tableflip_New_result env_register_fails = (Some UpgraderHandle, None)"
  "RegisterCheck_result env_register_fails
     = (\<lambda>reg name. if name = ''database'' then Some (Err ''check is not valid'') else None)"
  by (simp_all add: env_register_fails_def env_ok_def)

lemma Load_env_register_fails:
  "Load env_register_fails world0 = (None, world0\<lparr>C := Some defaults\<rparr>)"
  by (simp add: Load_def env_register_fails_fields validate_defaults)

lemma New_env_register_fails:
  "New env_register_fails world0
     = Returns (None, Some (Wrap ''failed to setup health checks''
                              (Wrap ''failed to register database health check''
                                 (Err ''check is not valid''))))
         \<lparr> clock = 0,
           calls = [LoggerNew, DatabaseNew, RedisNew, TableflipNew, GosundheitNew,
                    RegisterCheck ''database'' (2 * Second) (30 * Second)
                      (Some (Err ''check is not valid''))],
           logs = [], C = Some defaults, registry = [] \<rparr>"
  by (simp add: New_def Load_env_register_fails Get_def Let_def env_register_fails_fields)
     (simp add: do_call_def world0_def New_setup_def setupRouter_def Let_def
        setupHealthChecks_def health_RegisterCheck_def setupServer_def
        env_register_fails_fields)

section \<open>Lemmas about the endpoints and the server\<close>

lemma New_health: "New env w0 = Returns (Some a, None) w1 \<Longrightarrow> health a \<noteq> None"
  using New_outcome [of env w0] by auto

lemma readinessHandler_returns:
  assumes "status rw = None"
  shows \<open>\<exists>rw' w'. readinessHandler env a rw w = Returns rw' w'
           \<and> (let ready = ((db a = None \<or> db_Ping_result env = None)
                             \<and> (redis a = None \<or> redis_Ping_result env = None))
              in status rw' = Some (if ready then 200 else 503)
                 \<and> body rw' = body rw @ (if ready then ''{"ready": true}''
                                          else ''{"ready": false}''))\<close>
  using assms
  by (simp add: readinessHandler_def Let_def Write_def WriteHeader_def Header_Set_def
        StatusOK_def StatusServiceUnavailable_def split: option.splits)

lemma opts_ok_fields:
  "ServerOptions.Config opts_ok = Some defaults" "ServerOptions.Logger opts_ok = Some LoggerHandle"
  "ServerOptions.Handler opts_ok \<noteq> None" "ServerOptions.Upgrader opts_ok = Some UpgraderHandle"
  by (simp_all add: opts_ok_def app_ok_def setupServer_def)

lemma NewServer_opts_ok:
  "snd (NewServer env opts_ok) = None \<and> fst (NewServer env opts_ok) \<noteq> None"
  using opts_ok_fields
  by (auto simp: NewServer_def Server_setupServer_def Let_def split: option.splits)

lemma NewServer_env_tls_fails:
  "snd (NewServer env_tls_fails (opts_ok\<lparr>Config := Some tls_defaults\<rparr>))
     = Some (Wrap ''failed to setup server''
               (Wrap ''failed to setup TLS''
                  (Wrap ''failed to load TLS certificate''
                     (Err ''open cert.pem: no such file or directory''))))"
  using opts_ok_fields
  by (auto simp: NewServer_def Server_setupServer_def Server_setupTLS_def Let_def
        tls_defaults_def env_tls_fails_def split: option.splits)

section \<open>Claims about the configuration\<close>

text \<open>
  Claim C10. For every configuration whose database driver is neither \<open>postgres\<close> nor
  \<open>mysql\<close>, \<open>GetConnectionString\<close> returns the empty string; the function has no error
  result at all.
\<close>

theorem GetConnectionString_unknown_driver:
  assumes "Driver (Database c) \<noteq> ''postgres''" and "Driver (Database c) \<noteq> ''mysql''"
  shows "GetConnectionString c = []"
  using assms by (simp add: GetConnectionString_def)

theorem GetConnectionString_unknown_driver_witness:
  "GetConnectionString (defaults\<lparr>Database := (Database defaults)\<lparr>Driver := ''sqlite''\<rparr>\<rparr>) = []"
  using GetConnectionString_unknown_driver
          [of "defaults\<lparr>Database := (Database defaults)\<lparr>Driver := ''sqlite''\<rparr>\<rparr>"]
  by simp

section \<open>Claims about shutdown\<close>

text \<open>
  Claim C1, as stated: every teardown step of \<open>Shutdown\<close> is bounded by the configured
  shutdown timeout, so that \<open>Shutdown\<close> returns by the deadline even if one collaborator's
  \<^verbatim>\<open>Close\<close> blocks for ever. It fails: only the server's step receives the context. With
  every collaborator present and a database whose \<^verbatim>\<open>Close\<close> never returns, \<open>Shutdown\<close>
  does not return by the deadline; it does not return at all.
\<close>

theorem Shutdown_deadline_counterexample:
  "\<not> returns_by (Shutdown env_db_hangs app_ok world0)
       (clock world0 + shutdown_budget app_ok)"
proof -
  have "tail_time env_db_hangs app_ok = None"
    by (simp add: tail_time_def step_time_def app_ok_fields env_db_hangs_def)
  moreover obtain srv where "server app_ok = Some srv"
    using app_ok_fields(1) by auto
  ultimately obtain w' where "Shutdown env_db_hangs app_ok world0 = Blocks w'"
    using Shutdown_blocks by blast
  then show ?thesis by simp
qed

text \<open>
  Claim C1, amended: only the server's drain is bounded by the configured shutdown timeout.
  \<^verbatim>\<open>DeregisterAll\<close>, the database's and Redis's \<^verbatim>\<open>Close\<close> and the upgrader's \<^verbatim>\<open>Stop\<close> are
  called without a deadline. When each of them that is called returns, \<open>Shutdown\<close>
  returns nil, after the time of the drain, which is at most the timeout, plus the time
  those calls take; when one of them never returns, \<open>Shutdown\<close> never returns.
\<close>

theorem Shutdown_time_box:
  assumes "server a = Some srv"
  shows "(\<forall>t. tail_time env a = Some t \<longrightarrow>
            (\<exists>w'. Shutdown env a w = Returns None w'
               \<and> clock w' = clock w + drain_time env (shutdown_budget a) + t
               \<and> clock w' \<le> clock w + shutdown_budget a + t))
         \<and> (tail_time env a = None \<longrightarrow> (\<exists>w'. Shutdown env a w = Blocks w'))"
proof (intro conjI allI impI)
  fix t assume "tail_time env a = Some t"
  from Shutdown_returns [OF assms this, of w] drain_time_le [of env "shutdown_budget a"]
  show "\<exists>w'. Shutdown env a w = Returns None w'
               \<and> clock w' = clock w + drain_time env (shutdown_budget a) + t
               \<and> clock w' \<le> clock w + shutdown_budget a + t"
    by auto
next
  assume "tail_time env a = None"
  from Shutdown_blocks [OF assms this, of w] show "\<exists>w'. Shutdown env a w = Blocks w'"
    by blast
qed

theorem Shutdown_time_box_witness:
  "(\<exists>w'. Shutdown env_ok app_ok world0 = Returns None w' \<and> clock w' = 6)
   \<and> (\<exists>w'. Shutdown env_db_hangs app_ok world0 = Blocks w')"
proof -
  obtain srv where srv: "server app_ok = Some srv"
    using app_ok_fields(1) by auto
  have t1: "tail_time env_ok app_ok = Some 4"
    by (simp add: tail_time_def step_time_def app_ok_fields env_ok_def)
  have t2: "tail_time env_db_hangs app_ok = None"
    by (simp add: tail_time_def step_time_def app_ok_fields env_db_hangs_def)
  have d: "drain_time env_ok (shutdown_budget app_ok) = 2"
    by (simp add: drain_time_def env_ok_def shutdown_budget_app_ok)
  have c: "clock world0 = 0" by (simp add: world0_def)
  show ?thesis
    using Shutdown_time_box [OF srv, of env_ok world0]
      Shutdown_time_box [OF srv, of env_db_hangs world0] t1 t2 d c
    by auto
qed

text \<open>
  Claim C6. The steps of \<open>Shutdown\<close> run in the order: server shutdown (stop accepting,
  drain), \<^verbatim>\<open>DeregisterAll\<close>, database close, Redis close, upgrader stop, each of the last
  four when its collaborator is not nil. The calls of every execution are a prefix of that
  list, and when every call returns, whatever error the server's shutdown, the database's
  close or Redis's close returns, they are the whole list: an error in one step does not
  keep a later step from running.
\<close>

theorem Shutdown_order:
  "(\<exists>cs. calls (final (Shutdown env a w)) = calls w @ cs \<and> prefix cs (shutdown_calls a))
   \<and> (server a \<noteq> None \<and> tail_time env a \<noteq> None \<longrightarrow>
        (\<exists>w'. Shutdown env a w = Returns None w' \<and> calls w' = calls w @ shutdown_calls a))"
proof (cases "server a")
  case None
  then show ?thesis by (simp add: Shutdown_crashes)
next
  case (Some srv)
  show ?thesis
  proof (cases "tail_time env a")
    case None
    with Shutdown_blocks [OF Some None, of w] show ?thesis by auto
  next
    case (Some t)
    with Shutdown_returns [OF \<open>server a = Some srv\<close> Some, of w] show ?thesis by auto
  qed
qed

theorem Shutdown_order_witness:
  "\<exists>w'. Shutdown env_failing app_ok world0 = Returns None w'
     \<and> calls w' = [ServerShutdown 30000000000, HealthDeregisterAll, DBClose, RedisClose,
                    UpgraderStop]"
  using Shutdown_order [of env_failing app_ok world0] tail_time_env_failing app_ok_fields(1)
  by (simp add: shutdown_calls_app_ok world0_def)




section \<open>Claims about startup\<close>




text \<open>
  Claim C7. When acquiring the listener fails, \<^verbatim>\<open>Run\<close> returns that error, wrapped with
  the address, and the only call it has made is the one to \<^verbatim>\<open>Listen\<close>: readiness is not
  signalled.
\<close>

theorem Run_listen_failure:
  assumes "upgrader a = Some up"
    and "snd (Listen_result env ''tcp'' (listen_addr (config a))) = Some e"
  shows "\<exists>w'. Run env a w
             = Returns (Some (Wrap (''failed to listen on '' @ listen_addr (config a)) e)) w'
           \<and> calls w' = calls w @ [UpgraderListen ''tcp'' (listen_addr (config a))]
           \<and> UpgraderReady \<notin> set (drop (length (calls w)) (calls w'))"
  using assms by (simp add: Run_def Let_def)

theorem Run_listen_failure_witness:
  "\<exists>w'. Run env_listen_fails app_ok world_started
           = Returns (Some (Wrap ''failed to listen on 0.0.0.0:8080''
                        (Err ''bind: address already in use''))) w'
         \<and> calls w' = calls world_started @ [UpgraderListen ''tcp'' ''0.0.0.0:8080'']
         \<and> UpgraderReady \<notin> set (drop (length (calls world_started)) (calls w'))"
  using Run_listen_failure [of app_ok UpgraderHandle env_listen_fails
          "Err ''bind: address already in use''" world_started]
  by (simp add: app_ok_fields env_listen_fails_def listen_addr_defaults)

text \<open>
  Claim C5, as stated: when the registration of a health check fails, the failure is
  logged and startup still succeeds, \<^verbatim>\<open>New\<close> returning the application and no error. It
  fails: \<^verbatim>\<open>setupHealthChecks\<close> returns the error of the first registration that fails and
  \<^verbatim>\<open>New\<close> returns it. Where the registry refuses the database check, a registration has
  failed, \<^verbatim>\<open>New\<close> returns no application and the wrapped error, and has logged nothing.
\<close>

theorem New_check_failure_counterexample:
  "list_ex check_failed (calls (final (New env_register_fails world0)))
   \<and> result (New env_register_fails world0)
       = Some (None, Some (Wrap ''failed to setup health checks''
                             (Wrap ''failed to register database health check''
                                (Err ''check is not valid''))))
   \<and> logs (final (New env_register_fails world0)) = []"
  by (simp add: New_env_register_fails)

text \<open>
  Claim C5, amended: in every startup in which the creation or the registration of a
  health check fails, the failing call is the last call \<^verbatim>\<open>New\<close> makes and the first that
  fails; \<^verbatim>\<open>New\<close> returns no application and the error that this call returned, wrapped
  under the message of that check and then as \<open>failed to setup health checks\<close>; the
  startup ends with that error, before \<^verbatim>\<open>Run\<close> is called, and \<^verbatim>\<open>New\<close> logs nothing at the
  level of an error.
\<close>

theorem New_check_failure:
  assumes "calls (final (New env w)) = calls w @ cs" and "list_ex check_failed cs"
  shows "\<exists>pre c e0 w' ls.
           cs = pre @ [c] \<and> \<not> list_ex check_failed pre \<and> call_error c = Some e0
           \<and> New env w
               = Returns (None, Some (Wrap ''failed to setup health checks''
                                        (Wrap (failure_message c) e0))) w'
           \<and> startup env w
               = Returns (Some (Wrap ''failed to setup health checks''
                                  (Wrap (failure_message c) e0))) w'
           \<and> logs w' = logs w @ ls \<and> \<not> list_ex is_error_log ls"
proof -
  let ?cfg = "fst (unmarshal_result env)"
  let ?d = "fst (database_New_result env (Database ?cfg))"
  let ?r = "fst (redis_New_result env (Redis ?cfg))"
  let ?u = "fst (tableflip_New_result env)"
  let ?five = "[LoggerNew, DatabaseNew, RedisNew, TableflipNew, GosundheitNew]"
  from New_reaches_setup [of env w] consider
    (early) e w' cs0 where "New env w = Returns (None, Some e) w'"
      "calls w' = calls w @ cs0" "\<not> list_ex is_check_call cs0"
  | (reached) w5 where "New env w = New_setup env ?cfg ?d ?r ?u w5"
      "calls w5 = calls w @ ?five" "logs w5 = logs (snd (Load env w))"
    by blast
  then show ?thesis
  proof cases
    case early
    then have "cs = cs0" using assms(1) by simp
    then show ?thesis using early(3) assms(2) list_ex_check_failed by blast
  next
    case reached
    obtain res w' where ret: "New_setup env ?cfg ?d ?r ?u w5 = Returns res w'"
      using New_setup_outcome [of env ?cfg ?d ?r ?u w5] by blast
    have new: "New env w = Returns res w'"
      using reached(1) ret by simp
    obtain ls0 where ls0: "logs w5 = logs w @ ls0" "\<not> list_ex is_error_log ls0"
      using Load_logs [of env w] reached(3) by auto
    obtain ls1 where ls1: "logs w' = logs w5 @ ls1" "\<not> list_ex is_error_log ls1"
      using New_setup_logs [OF ret] by blast
    have lg: "logs w' = logs w @ (ls0 @ ls1)" "\<not> list_ex is_error_log (ls0 @ ls1)"
      using ls0 ls1 by simp_all
    from New_setup_outcome [of env ?cfg ?d ?r ?u w5] ret consider
      (failed) e where "res = (None, Some e)"
    | (ok) a cs0 where "res = (Some a, None)" "calls w' = calls w5 @ cs0"
        "\<not> list_ex check_failed cs0"
      by auto
    then show ?thesis
    proof cases
      case failed
      from New_setup_failure [of env ?cfg ?d ?r ?u w5 e w'] ret failed
      obtain pre c e0 where
        e: "e = Wrap ''failed to setup health checks'' (Wrap (failure_message c) e0)" and
        c: "calls w' = calls w5 @ pre @ [c]" "\<not> list_ex check_failed pre"
           "call_error c = Some e0"
        by auto
      have "cs = (?five @ pre) @ [c]"
        using assms(1) new c(1) reached(2) by simp
      moreover have "\<not> list_ex check_failed (?five @ pre)"
        using c(2) by simp
      moreover have "New env w
          = Returns (None, Some (Wrap ''failed to setup health checks''
                                   (Wrap (failure_message c) e0))) w'"
        using new failed e by simp
      moreover from this have "startup env w
          = Returns (Some (Wrap ''failed to setup health checks''
                             (Wrap (failure_message c) e0))) w'"
        by (simp add: startup_def)
      ultimately show ?thesis using c(3) lg by blast
    next
      case ok
      then have "cs = ?five @ cs0"
        using assms(1) new reached(2) by simp
      then show ?thesis using ok(3) assms(2) by simp
    qed
  qed
qed

theorem New_check_failure_witness:
  "\<exists>w'. New env_register_fails world0
           = Returns (None, Some (Wrap ''failed to setup health checks''
                                    (Wrap ''failed to register database health check''
                                       (Err ''check is not valid'')))) w'
         \<and> startup env_register_fails world0
           = Returns (Some (Wrap ''failed to setup health checks''
                              (Wrap ''failed to register database health check''
                                 (Err ''check is not valid'')))) w'"
proof -
  let ?c = "RegisterCheck ''database'' (2 * Second) (30 * Second)
              (Some (Err ''check is not valid''))"
  have "calls (final (New env_register_fails world0))
      = calls world0 @ ([LoggerNew, DatabaseNew, RedisNew, TableflipNew, GosundheitNew] @ [?c])"
    by (simp add: New_env_register_fails) (simp add: world0_def)
  moreover have "list_ex check_failed
      ([LoggerNew, DatabaseNew, RedisNew, TableflipNew, GosundheitNew] @ [?c])"
    by simp
  ultimately obtain pre c e0 w' where
    cs: "[LoggerNew, DatabaseNew, RedisNew, TableflipNew, GosundheitNew] @ [?c] = pre @ [c]" and
    ce: "call_error c = Some e0" and
    new: "New env_register_fails world0
            = Returns (None, Some (Wrap ''failed to setup health checks''
                                     (Wrap (failure_message c) e0))) w'" and
    st: "startup env_register_fails world0
            = Returns (Some (Wrap ''failed to setup health checks''
                               (Wrap (failure_message c) e0))) w'"
    using New_check_failure [of env_register_fails world0] by blast
  from cs have "c = ?c" by simp
  with ce new st show ?thesis by simp
qed

section \<open>Claims about the probe endpoints\<close>

text \<open>
  Claim C4. For an application that \<^verbatim>\<open>New\<close> has built, \<^verbatim>\<open>healthzHandler\<close> always returns,
  having written a response: status 200 and the body \<^verbatim>\<open>{"status": "healthy"}\<close> when the
  registry's aggregate verdict is healthy, status 503 and the body
  \<^verbatim>\<open>{"status": "unhealthy"}\<close> otherwise, whatever the results of the single checks are.
\<close>

theorem healthzHandler_responds:
  assumes "New env0 w0 = Returns (Some a, None) w1" and "status rw = None"
  shows \<open>\<exists>rw' w'. healthzHandler env a rw w = Returns rw' w'
           \<and> status rw' = Some (if snd (Results_result env (registry w)) then 200 else 503)
           \<and> body rw' = body rw @ (if snd (Results_result env (registry w))
                                    then ''{"status": "healthy"}''
                                    else ''{"status": "unhealthy"}'')
           \<and> header rw' ''Content-Type'' = Some ''application/json''\<close>
proof -
  obtain h where "health a = Some h"
    using New_health [OF assms(1)] by auto
  then show ?thesis
    using assms(2)
    by (simp add: healthzHandler_def Let_def Write_def WriteHeader_def Header_Set_def
          StatusOK_def StatusServiceUnavailable_def)
qed

theorem healthzHandler_responds_witness:
  \<open>\<exists>rw' w'. healthzHandler env_ok app_ok response0 world_started = Returns rw' w'
           \<and> status rw' = Some 200 \<and> body rw' = ''{"status": "healthy"}''
           \<and> header rw' ''Content-Type'' = Some ''application/json''\<close>
  using healthzHandler_responds [OF New_env_ok, of response0 env_ok world_started]
  by (simp add: response0_def env_ok_fields)

text \<open>
  Claim C3 says that the body of the readiness response includes the map of the single
  checks. The handler fills that map and builds a response value from it, but the body it
  writes is fixed: with the database and Redis both present and both answering the ping,
  the response is status 200 with the body \<^verbatim>\<open>{"ready": true}\<close> and no \<open>checks\<close> member.
\<close>

theorem readinessHandler_omits_checks:
  \<open>map_option (\<lambda>rw. (status rw, body rw))
      (result (readinessHandler env_ok app_ok response0 world_started))
   = Some (Some 200, ''{"ready": true}'')\<close>
proof -
  obtain rw' w' where "readinessHandler env_ok app_ok response0 world_started = Returns rw' w'"
    "status rw' = Some 200" \<open>body rw' = ''{"ready": true}''\<close>
    using readinessHandler_returns [of response0 env_ok app_ok world_started]
    by (auto simp: response0_def env_ok_fields Let_def)
  then show ?thesis by simp
qed

section \<open>Claims about the HTTP server\<close>

text \<open>
  Claim C8. When one of \<^verbatim>\<open>Config\<close>, \<^verbatim>\<open>Logger\<close>, \<^verbatim>\<open>Handler\<close>, \<^verbatim>\<open>Upgrader\<close> is nil,
  \<^verbatim>\<open>NewServer\<close> returns a nil server and a non-nil error. When none is nil, an error it
  returns comes with a nil server and from the setup of the server: TLS is enabled, loading
  the key pair failed, and the error wraps that failure.
\<close>

theorem NewServer_errors:
  "(ServerOptions.Config opts = None \<or> ServerOptions.Logger opts = None
      \<or> ServerOptions.Handler opts = None \<or> ServerOptions.Upgrader opts = None
    \<longrightarrow> fst (NewServer env opts) = None \<and> snd (NewServer env opts) \<noteq> None)
   \<and> (ServerOptions.Config opts \<noteq> None \<and> ServerOptions.Logger opts \<noteq> None
      \<and> ServerOptions.Handler opts \<noteq> None \<and> ServerOptions.Upgrader opts \<noteq> None
    \<longrightarrow> (\<forall>e. snd (NewServer env opts) = Some e \<longrightarrow>
          fst (NewServer env opts) = None
          \<and> (\<exists>cfg e0. ServerOptions.Config opts = Some cfg
                \<and> TLSConfig.Enabled (TLS (HTTP cfg))
                \<and> LoadX509KeyPair_result env (CertFile (TLS (HTTP cfg)))
                     (KeyFile (TLS (HTTP cfg))) = Inl e0
                \<and> e = Wrap ''failed to setup server''
                        (Wrap ''failed to setup TLS''
                           (Wrap ''failed to load TLS certificate'' e0)))))"
  by (auto simp: NewServer_def Server_setupServer_def Server_setupTLS_def Let_def
           split: option.splits sum.splits if_splits)


theorem NewServer_errors_witness:
  "fst (NewServer env_ok (opts_ok\<lparr>ServerOptions.Handler := None\<rparr>)) = None
   \<and> snd (NewServer env_ok (opts_ok\<lparr>ServerOptions.Handler := None\<rparr>)) \<noteq> None
   \<and> fst (NewServer env_tls_fails (opts_ok\<lparr>Config := Some tls_defaults\<rparr>)) = None"
  using NewServer_errors [of "opts_ok\<lparr>ServerOptions.Handler := None\<rparr>" env_ok]
    NewServer_errors [of "opts_ok\<lparr>Config := Some tls_defaults\<rparr>" env_tls_fails]
    NewServer_env_tls_fails opts_ok_fields
  by simp

end
